theory Spec2Isabelle
  imports Complex_Main "HOL-Library.AList" "HOL-Library.Log_Nat"
begin

section \<open>Data model of \<^verbatim>\<open>tbmodels/_tb_model.py\<close>\<close>

text \<open>
  Integers. A Python \<^verbatim>\<open>int\<close> is unbounded; a numpy \<^verbatim>\<open>int64\<close> wraps around modulo \<open>2\<^sup>6\<^sup>4\<close>.
  Both are values of \<^typ>\<open>int\<close>, and every operation the source carries out on \<^verbatim>\<open>int64\<close>
  operands is followed by the wrap-around \<open>wrap64\<close>. The entries of a key tuple are of one
  of the two kinds, and the kind decides what \<^verbatim>\<open>-x\<close> is at \<open>-2\<^sup>6\<^sup>3\<close>: it travels with the
  table as an \<open>int_kind\<close>.

  Floats. A finite Python float is a \<^typ>\<open>real\<close>, a finite Python complex a
  \<^typ>\<open>complex\<close>; \<open>+\<close>, \<open>-\<close>, \<open>*\<close>, \<open>/\<close> on them are exact. Where the source rounds and
  the result is an integer or a position of the model, the rounding is written out:
  \<^verbatim>\<open>% 1\<close> on a position, the conversion of an integer to a float, the conversion of a float
  to \<^verbatim>\<open>int64\<close>. The routines \<^verbatim>\<open>la.norm\<close>, \<^verbatim>\<open>la.det\<close> and \<^verbatim>\<open>la.solve\<close> of scipy compute
  in floating point inside the library; they are parameters of the functions that call
  them. A value that need not be finite (what a vector potential returns, an entry that
  the vector-potential loop has written) has a type of its own.

  A hopping matrix (a numpy array or a CSR matrix in the source) is the list of its rows;
  the zero-row matrix is \<open>[]\<close>. A Python dict is an association list in iteration order,
  written to with \<^const>\<open>AList.update\<close> (an existing key keeps its place, a new key goes
  last); numpy and Python integers of equal value are the same key.
\<close>

type_synonym lattice_vec = "int \<times> int \<times> int"
type_synonym vec3 = "real \<times> real \<times> real"
type_synonym mat3 = "vec3 \<times> vec3 \<times> vec3"
type_synonym matrix = "complex list list"
type_synonym hopping_table = "(lattice_vec \<times> matrix) list"

text \<open>The integer type of the entries of the key tuples of a dict.\<close>

datatype int_kind = PyInt | NpInt64

text \<open>Every \<^verbatim>\<open>raise\<close> of the source, and every exception of Python or of the
  array library that the source can run into, is a value of this type.\<close>

datatype error =
    EmptyHoppings
  | BadPosLength
  | NotHermitian
  | ShapeMismatch
  | KeyError lattice_vec
  | IndexError
  | InconsistentShapes
  | OccMismatch "int option" "int option"
  | TypeError
  | UcMismatch "mat3 option" "mat3 option"
  | PosMismatch "vec3 list" "vec3 list"
  | ZeroDivisionError
  | BadDeterminant real
  | UnitCellMissing
  | BadModeScalar
  | BadModeVec
  | AttributeError
  | OverflowError
  | NegativeDimensions
  | ObjectArray

record Model =
  size_of :: nat
  occ :: "int option"
  pos :: "vec3 list"
  uc :: "mat3 option"
  hoppings :: hopping_table
  key_kind :: int_kind

subsection \<open>Exceptions and loops that can raise\<close>

fun bindE :: "error + 'a \<Rightarrow> ('a \<Rightarrow> error + 'b) \<Rightarrow> error + 'b" where
  "bindE (Inl e) f = Inl e"
| "bindE (Inr a) f = f a"

fun foldE :: "('a \<Rightarrow> 's \<Rightarrow> error + 's) \<Rightarrow> 'a list \<Rightarrow> 's \<Rightarrow> error + 's" where
  "foldE f [] s = Inr s"
| "foldE f (x # xs) s = bindE (f x s) (foldE f xs)"

subsection \<open>Machine numbers\<close>

text \<open>The value an \<^verbatim>\<open>int64\<close> operation leaves of the exact result \<open>x\<close>.\<close>

definition wrap64 :: "int \<Rightarrow> int" where
  "wrap64 x = (x + 2 ^ 63) mod 2 ^ 64 - 2 ^ 63"

definition in_int64 :: "int \<Rightarrow> bool" where
  "in_int64 x = (- (2 ^ 63) \<le> x \<and> x < 2 ^ 63)"

fun in_int64_3 :: "lattice_vec \<Rightarrow> bool" where
  "in_int64_3 (a, b, c) = (in_int64 a \<and> in_int64 b \<and> in_int64 c)"

definition plus64 :: "int \<Rightarrow> int \<Rightarrow> int" where
  "plus64 a b = wrap64 (a + b)"

definition mul64 :: "int \<Rightarrow> int \<Rightarrow> int" where
  "mul64 a b = wrap64 (a * b)"

text \<open>\<^verbatim>\<open>-x\<close> on an entry of a key tuple.\<close>

definition neg_int :: "int_kind \<Rightarrow> int \<Rightarrow> int" where
  "neg_int kind x = (case kind of PyInt \<Rightarrow> - x | NpInt64 \<Rightarrow> wrap64 (- x))"

text \<open>\<^verbatim>\<open>np.array(..., dtype=int)\<close> on a float: truncation towards zero; a float beyond
  the \<^verbatim>\<open>int64\<close> range comes out as \<open>-2\<^sup>6\<^sup>3\<close> (the x86-64 conversion).\<close>

definition trunc :: "real \<Rightarrow> int" where
  "trunc x = (if 0 \<le> x then \<lfloor>x\<rfloor> else \<lceil>x\<rceil>)"

definition cast_int64 :: "real \<Rightarrow> int" where
  "cast_int64 x = (if in_int64 (trunc x) then trunc x else - (2 ^ 63))"

text \<open>Rounding to the nearest integer, ties to the even one: the rounding of a float64
  significand.\<close>

definition round_half_even :: "real \<Rightarrow> int" where
  "round_half_even x =
     (let f = \<lfloor>x\<rfloor>; r = x - of_int f in
      if r < 1 / 2 then f else if 1 / 2 < r then f + 1 else if even f then f else f + 1)"

text \<open>The float64 nearest to a real of the normal range: 53 significant bits.\<close>

definition rn64 :: "real \<Rightarrow> real" where
  "rn64 x =
     (if x = 0 then 0
      else (let u = 2 powr (of_int \<lfloor>log 2 \<bar>x\<bar>\<rfloor> - 52) in of_int (round_half_even (x / u)) * u))"

text \<open>The float64 an integer is converted to: itself up to \<open>2\<^sup>5\<^sup>3\<close>, beyond that the nearest
  integer of 53 significant bits.\<close>

definition float64_of_int :: "int \<Rightarrow> real" where
  "float64_of_int n =
     (if \<bar>n\<bar> \<le> 2 ^ 53 then of_int n
      else (let e = nat (bitlen \<bar>n\<bar> - 53) in
            of_int (sgn n * round_half_even (of_int \<bar>n\<bar> / 2 ^ e) * 2 ^ e)))"

text \<open>\<^verbatim>\<open>x % 1\<close> on a float: \<^verbatim>\<open>fmod(x, 1)\<close> is exact, and a negative remainder gets \<open>1.0\<close>
  added in floating point. The sum is exact unless it lies above \<open>1/2\<close>, where the
  floats are the multiples of \<open>2\<^sup>-\<^sup>5\<^sup>3\<close>; so a tiny negative \<open>x\<close> gives \<open>1.0\<close>.\<close>

definition float_mod1 :: "real \<Rightarrow> real" where
  "float_mod1 x =
     (if x < 0 \<and> 1 / 2 < frac x then of_int (round_half_even (frac x * 2 ^ 53)) / 2 ^ 53
      else frac x)"

subsection \<open>Lattice vectors\<close>

text \<open>\<^verbatim>\<open>tuple(-x for x in G)\<close>\<close>

fun neg_G :: "int_kind \<Rightarrow> lattice_vec \<Rightarrow> lattice_vec" where
  "neg_G kind (a, b, c) = (neg_int kind a, neg_int kind b, neg_int kind c)"

text \<open>\<open>+\<close> and \<open>-\<close> on \<^verbatim>\<open>int64\<close> arrays, and \<open>+\<close> on arrays of Python ints.\<close>

fun add64 :: "lattice_vec \<Rightarrow> lattice_vec \<Rightarrow> lattice_vec" where
  "add64 (a, b, c) (x, y, z) = (plus64 a x, plus64 b y, plus64 c z)"

fun sub64 :: "lattice_vec \<Rightarrow> lattice_vec \<Rightarrow> lattice_vec" where
  "sub64 (a, b, c) (x, y, z) = (wrap64 (a - x), wrap64 (b - y), wrap64 (c - z))"

fun add_G :: "lattice_vec \<Rightarrow> lattice_vec \<Rightarrow> lattice_vec" where
  "add_G (a, b, c) (x, y, z) = (a + x, b + y, c + z)"

text \<open>\<^verbatim>\<open>G[np.nonzero(G)[0][0]] > 0\<close>, which the source evaluates only when \<open>G\<close> is not
  \<open>(0, 0, 0)\<close>.\<close>

fun first_nonzero_positive :: "lattice_vec \<Rightarrow> bool" where
  "first_nonzero_positive (a, b, c) =
     (if a \<noteq> 0 then 0 < a else if b \<noteq> 0 then 0 < b else 0 < c)"

subsection \<open>Matrices\<close>

definition ncols :: "matrix \<Rightarrow> nat" where
  "ncols m = (case m of [] \<Rightarrow> 0 | r # _ \<Rightarrow> length r)"

text \<open>\<^verbatim>\<open>m.shape == (r, c)\<close>\<close>

definition has_shape :: "nat \<Rightarrow> nat \<Rightarrow> matrix \<Rightarrow> bool" where
  "has_shape r c m = (length m = r \<and> list_all (\<lambda>row. length row = c) m)"

definition zeros :: "nat \<Rightarrow> nat \<Rightarrow> matrix" where
  "zeros r c = replicate r (replicate c 0)"

text \<open>Entry by entry.\<close>

definition mat_plus :: "matrix \<Rightarrow> matrix \<Rightarrow> matrix" where
  "mat_plus a b = map2 (map2 (+)) a b"

definition mat_minus :: "matrix \<Rightarrow> matrix \<Rightarrow> matrix" where
  "mat_minus a b = map2 (map2 (-)) a b"

text \<open>The array library refuses \<open>+\<close> and \<open>-\<close> on operands of different shapes.\<close>

definition mat_add :: "matrix \<Rightarrow> matrix \<Rightarrow> error + matrix" where
  "mat_add a b =
     (if map length a = map length b then Inr (mat_plus a b) else Inl InconsistentShapes)"

definition mat_scale :: "complex \<Rightarrow> matrix \<Rightarrow> matrix" where
  "mat_scale x a = map (map ((*) x)) a"

definition mat_conj :: "matrix \<Rightarrow> matrix" where
  "mat_conj a = map (map cnj) a"

definition mat_T :: "matrix \<Rightarrow> matrix" where
  "mat_T a = map (\<lambda>j. map (\<lambda>row. row ! j) a) [0..<ncols a]"

text \<open>The Frobenius norm.\<close>

definition mat_norm :: "matrix \<Rightarrow> real" where
  "mat_norm a = sqrt (sum_list (map (\<lambda>x. (cmod x)\<^sup>2) (concat a)))"

text \<open>\<^verbatim>\<open>la.norm(hop_csr - partner.T.conjugate())\<close> over exact numbers: what the library
  routine approximates.\<close>

definition frobenius_cc :: "matrix \<Rightarrow> matrix \<Rightarrow> real" where
  "frobenius_cc hop_csr partner = mat_norm (mat_minus hop_csr (mat_conj (mat_T partner)))"

text \<open>\<^verbatim>\<open>m[i][j] += t\<close> and \<^verbatim>\<open>m[i, j] += t\<close> on a dense array: IndexError out of range.\<close>

definition mat_acc :: "matrix \<Rightarrow> nat \<Rightarrow> nat \<Rightarrow> complex \<Rightarrow> error + matrix" where
  "mat_acc m i j t =
     (if i < length m \<and> j < length (m ! i)
      then Inr (m[i := (m ! i)[j := m ! i ! j + t]])
      else Inl IndexError)"

subsection \<open>Dictionaries\<close>

text \<open>\<^verbatim>\<open>d[k]\<close> on a \<^verbatim>\<open>defaultdict\<close> whose factory returns \<open>dflt\<close>.\<close>

definition dd_get :: "matrix \<Rightarrow> hopping_table \<Rightarrow> lattice_vec \<Rightarrow> matrix" where
  "dd_get dflt d k = (case map_of d k of None \<Rightarrow> dflt | Some v \<Rightarrow> v)"

text \<open>\<^verbatim>\<open>{tuple(key): sp.csr(value, dtype=complex) for key, value in hoppings.items()}\<close>\<close>

definition to_dict :: "hopping_table \<Rightarrow> hopping_table" where
  "to_dict kvs = fold (\<lambda>(k, v). AList.update k v) kvs []"

section \<open>Construction\<close>

subsection \<open>\<^verbatim>\<open>Model._map_to_uc\<close>\<close>

text \<open>\<^verbatim>\<open>np.array(np.floor(p), dtype=int)\<close>\<close>

fun uc_offset :: "vec3 \<Rightarrow> lattice_vec" where
  "uc_offset (x, y, z) =
     (cast_int64 (of_int \<lfloor>x\<rfloor>), cast_int64 (of_int \<lfloor>y\<rfloor>), cast_int64 (of_int \<lfloor>z\<rfloor>))"

text \<open>\<^verbatim>\<open>np.array(p) % 1\<close>\<close>

fun mod1 :: "vec3 \<Rightarrow> vec3" where
  "mod1 (x, y, z) = (float_mod1 x, float_mod1 y, float_mod1 z)"

text \<open>The body of the innermost loop:
  \<^verbatim>\<open>if t != 0: G_new = tuple(np.array(G, dtype=int) + uc_offsets[i1] - uc_offsets[i0]);
  new_hoppings[G_new][i0][i1] += t\<close>.
  The conversion of \<open>G\<close> raises OverflowError on a Python int outside the \<^verbatim>\<open>int64\<close> range;
  the sum and the difference are \<^verbatim>\<open>int64\<close> operations.\<close>

definition map_to_uc_entry ::
  "int_kind \<Rightarrow> nat \<Rightarrow> lattice_vec list \<Rightarrow> lattice_vec \<Rightarrow> nat \<Rightarrow> nat \<times> complex \<Rightarrow> hopping_table
     \<Rightarrow> error + hopping_table" where
  "map_to_uc_entry kind n uc_offsets G i0 it new_hoppings =
     (case it of (i1, t) \<Rightarrow>
        if t \<noteq> 0 then
          (if kind = PyInt \<and> \<not> in_int64_3 G then Inl OverflowError
           else if i1 < length uc_offsets \<and> i0 < length uc_offsets then
             (let G_new = sub64 (add64 G (uc_offsets ! i1)) (uc_offsets ! i0) in
              bindE (mat_acc (dd_get (zeros n n) new_hoppings G_new) i0 i1 t)
                (\<lambda>m. Inr (AList.update G_new m new_hoppings)))
           else Inl IndexError)
        else Inr new_hoppings)"

definition map_to_uc_matrix ::
  "int_kind \<Rightarrow> nat \<Rightarrow> lattice_vec list \<Rightarrow> lattice_vec \<times> matrix \<Rightarrow> hopping_table
     \<Rightarrow> error + hopping_table" where
  "map_to_uc_matrix kind n uc_offsets Gh new_hoppings =
     (case Gh of (G, hop_mat) \<Rightarrow>
        foldE (\<lambda>(i0, row). foldE (map_to_uc_entry kind n uc_offsets G i0) (enumerate 0 row))
          (enumerate 0 hop_mat) new_hoppings)"

text \<open>The keys of the table that the slow path returns are tuples of \<^verbatim>\<open>int64\<close>.\<close>

definition map_to_uc ::
  "int_kind \<Rightarrow> nat \<Rightarrow> vec3 list \<Rightarrow> hopping_table
     \<Rightarrow> error + (vec3 list \<times> int_kind \<times> hopping_table)" where
  "map_to_uc kind n ps hop =
     (let uc_offsets = map uc_offset ps in
      if list_all (\<lambda>offset. offset = (0, 0, 0)) uc_offsets then Inr (ps, kind, hop)
      else bindE (foldE (map_to_uc_matrix kind n uc_offsets) hop [])
             (\<lambda>new_hoppings. Inr (map mod1 ps, NpInt64, new_hoppings)))"

subsection \<open>\<^verbatim>\<open>Model._reduce_hoppings\<close>\<close>

text \<open>One round of the consistency loop: \<^verbatim>\<open>hop[tuple(-x for x in G)]\<close> raises KeyError
  on a missing key, the subtraction needs equal shapes, and the norm that the library
  returns, the parameter \<open>cc_norm\<close>, is compared with the tolerance.\<close>

definition cc_check ::
  "int_kind \<Rightarrow> (matrix \<Rightarrow> matrix \<Rightarrow> real) \<Rightarrow> hopping_table \<Rightarrow> real \<Rightarrow> lattice_vec \<times> matrix
     \<Rightarrow> unit \<Rightarrow> error + unit" where
  "cc_check kind cc_norm hop cc_tolerance Gh u =
     (case Gh of (G, hop_csr) \<Rightarrow>
        (case map_of hop (neg_G kind G) of
           None \<Rightarrow> Inl (KeyError (neg_G kind G))
         | Some partner \<Rightarrow>
             if map length hop_csr = map length (mat_conj (mat_T partner)) then
               (if cc_norm hop_csr partner > cc_tolerance then Inl NotHermitian else Inr ())
             else Inl InconsistentShapes))"

definition reduce_step :: "lattice_vec \<times> matrix \<Rightarrow> hopping_table \<Rightarrow> hopping_table" where
  "reduce_step Gh res =
     (case Gh of (G, hop_csr) \<Rightarrow>
        if G = (0, 0, 0) then AList.update G (mat_scale (1 / 2) hop_csr) res
        else if first_nonzero_positive G then AList.update G hop_csr res
        else res)"

definition reduce_hoppings ::
  "int_kind \<Rightarrow> (matrix \<Rightarrow> matrix \<Rightarrow> real) \<Rightarrow> hopping_table \<Rightarrow> real \<Rightarrow> error + hopping_table" where
  "reduce_hoppings kind cc_norm hop cc_tolerance =
     bindE (foldE (cc_check kind cc_norm hop cc_tolerance) hop ())
       (\<lambda>_. Inr (fold reduce_step hop []))"

subsection \<open>\<^verbatim>\<open>Model._map_hoppings_positive_G\<close>\<close>

definition positive_G_step ::
  "int_kind \<Rightarrow> nat \<Rightarrow> lattice_vec \<times> matrix \<Rightarrow> hopping_table \<Rightarrow> error + hopping_table" where
  "positive_G_step kind n Gh new_hoppings =
     (case Gh of (G, hop_csr) \<Rightarrow>
        if G = (0, 0, 0) then Inr (AList.update G hop_csr new_hoppings)
        else if first_nonzero_positive G then
          bindE (mat_add (dd_get (zeros n n) new_hoppings G) hop_csr)
            (\<lambda>m. Inr (AList.update G m new_hoppings))
        else
          (let minus_G = neg_G kind G in
           bindE (mat_add (dd_get (zeros n n) new_hoppings minus_G) (mat_conj (mat_T hop_csr)))
             (\<lambda>m. Inr (AList.update minus_G m new_hoppings))))"

definition map_hoppings_positive_G ::
  "int_kind \<Rightarrow> nat \<Rightarrow> hopping_table \<Rightarrow> error + hopping_table" where
  "map_hoppings_positive_G kind n hop = foldE (positive_G_step kind n) hop []"

subsection \<open>\<^verbatim>\<open>Model.__init__\<close>\<close>

definition init_positions ::
  "int_kind \<Rightarrow> nat \<Rightarrow> vec3 list option \<Rightarrow> hopping_table
     \<Rightarrow> error + (vec3 list \<times> int_kind \<times> hopping_table)" where
  "init_positions kind n pos_arg hop =
     (case pos_arg of
        None \<Rightarrow> Inr (replicate n (0, 0, 0), kind, hop)
      | Some ps \<Rightarrow> if length ps = n then map_to_uc kind n ps hop else Inl BadPosLength)"

text \<open>\<^verbatim>\<open>size if (size is not None) else six.next(six.itervalues(hoppings)).shape[0]\<close>,
  read only when the dict is not empty or the size is given.\<close>

definition init_size :: "hopping_table \<Rightarrow> nat option \<Rightarrow> nat" where
  "init_size hop0 size_arg =
     (case size_arg of Some s \<Rightarrow> s | None \<Rightarrow> length (snd (hd hop0)))"

text \<open>The constructor. \<open>kind\<close> is the integer type of the entries of the keys of
  \<^verbatim>\<open>hoppings\<close>, \<open>cc_norm\<close> the norm routine of the library.\<close>

definition Model_init ::
  "int_kind \<Rightarrow> (matrix \<Rightarrow> matrix \<Rightarrow> real) \<Rightarrow> hopping_table \<Rightarrow> nat option \<Rightarrow> int option
     \<Rightarrow> vec3 list option \<Rightarrow> mat3 option \<Rightarrow> bool \<Rightarrow> real \<Rightarrow> error + Model" where
  "Model_init kind cc_norm hoppings_arg size_arg occ_arg pos_arg uc_arg contains_cc cc_tolerance =
     (let hop0 = to_dict hoppings_arg in
      if hop0 = [] \<and> size_arg = None then Inl EmptyHoppings
      else
        (let n = init_size hop0 size_arg in
         bindE (init_positions kind n pos_arg hop0)
           (\<lambda>(ps, kind1, hop1).
              bindE (if contains_cc then reduce_hoppings kind1 cc_norm hop1 cc_tolerance
                     else map_hoppings_positive_G kind1 n hop1)
                (\<lambda>hop2.
                   if list_all (has_shape n n) (map snd hop2)
                   then Inr \<lparr> size_of = n, occ = occ_arg, pos = ps, uc = uc_arg,
                              hoppings = hop2, key_kind = kind1 \<rparr>
                   else Inl ShapeMismatch))))"

text \<open>The default of the parameter \<^verbatim>\<open>cc_tolerance\<close>.\<close>

definition default_cc_tolerance :: real where
  "default_cc_tolerance = 1 / 10 ^ 12"

section \<open>Methods\<close>

text \<open>
  A method call on \<open>self\<close> is modelled by its outcome (the value returned or the
  exception raised) together with the state of \<open>self\<close> after the call. A method that
  assigns to nothing reachable from \<open>self\<close> returns \<open>self\<close> as it got it. The derived-model
  methods call the constructor with \<^verbatim>\<open>contains_cc=False\<close>, where the norm routine is not
  reached; they pass \<^const>\<open>frobenius_cc\<close>.
\<close>

type_synonym 'a call = "(error + 'a) \<times> Model"

subsection \<open>\<^verbatim>\<open>Model.hamilton\<close>\<close>

fun dot_Gk :: "lattice_vec \<Rightarrow> vec3 \<Rightarrow> real" where
  "dot_Gk (a, b, c) (x, y, z) = of_int a * x + of_int b * y + of_int c * z"

text \<open>\<^verbatim>\<open>np.array(hop) * np.exp(2j * np.pi * np.dot(G, k))\<close>\<close>

definition bloch_term :: "vec3 \<Rightarrow> lattice_vec \<times> matrix \<Rightarrow> matrix" where
  "bloch_term k Gh =
     (case Gh of (G, hop) \<Rightarrow>
        mat_scale (exp (2 * \<i> * of_real pi * of_real (dot_Gk G k))) hop)"

text \<open>Python's \<^verbatim>\<open>sum\<close> starts from the integer \<open>0\<close>; \<open>0 + a\<close> is the array \<open>a\<close>.\<close>

datatype py_sum = Int0 | Arr matrix

fun py_sum_add :: "matrix \<Rightarrow> py_sum \<Rightarrow> error + py_sum" where
  "py_sum_add a Int0 = Inr (Arr a)"
| "py_sum_add a (Arr s) = bindE (mat_add s a) (\<lambda>r. Inr (Arr r))"

text \<open>\<^verbatim>\<open>H += H.conjugate().T\<close>: the integer \<open>0\<close> has \<^verbatim>\<open>conjugate\<close> but no attribute
  \<^verbatim>\<open>T\<close>.\<close>

fun add_hc :: "py_sum \<Rightarrow> error + matrix" where
  "add_hc Int0 = Inl AttributeError"
| "add_hc (Arr H) = mat_add H (mat_T (mat_conj H))"

definition hamilton :: "vec3 \<Rightarrow> Model \<Rightarrow> matrix call" where
  "hamilton k self =
     (bindE (foldE py_sum_add (map (bloch_term k) (hoppings self)) Int0) add_hc, self)"

subsection \<open>Arithmetic: \<^verbatim>\<open>__add__\<close>, \<^verbatim>\<open>__mul__\<close>, \<^verbatim>\<open>__neg__\<close>, \<^verbatim>\<open>__sub__\<close>, \<^verbatim>\<open>__div__\<close>\<close>

fun vec3_list :: "vec3 \<Rightarrow> real list" where
  "vec3_list (x, y, z) = [x, y, z]"

fun mat3_rows :: "mat3 \<Rightarrow> vec3 list" where
  "mat3_rows (r0, r1, r2) = [r0, r1, r2]"

text \<open>The two nested comparison loops of \<^verbatim>\<open>__add__\<close>: the flag falls as soon as one
  pair of coordinates differs by more than the tolerance.\<close>

definition rows_match :: "real \<Rightarrow> vec3 list \<Rightarrow> vec3 list \<Rightarrow> bool" where
  "rows_match tolerance vs ws =
     list_all (\<lambda>(v1, v2). list_all (\<lambda>(x1, x2). \<not> \<bar>x1 - x2\<bar> > tolerance)
                              (zip (vec3_list v1) (vec3_list v2)))
       (zip vs ws)"

definition add_tolerance :: real where
  "add_tolerance = 1 / 10 ^ 6"

definition uc_match :: "mat3 option \<Rightarrow> mat3 option \<Rightarrow> bool" where
  "uc_match u1 u2 =
     (case (u1, u2) of
        (Some a, Some b) \<Rightarrow> rows_match add_tolerance (mat3_rows a) (mat3_rows b)
      | (None, None) \<Rightarrow> True
      | _ \<Rightarrow> False)"

text \<open>\<^verbatim>\<open>new_hoppings[G] += hop_mat\<close> on the deep copy of \<^verbatim>\<open>self.hoppings\<close>, which is a
  plain dict: the read of a missing key raises KeyError.\<close>

definition add_step :: "lattice_vec \<times> matrix \<Rightarrow> hopping_table \<Rightarrow> error + hopping_table" where
  "add_step Gh new_hoppings =
     (case Gh of (G, hop_mat) \<Rightarrow>
        (case map_of new_hoppings G of
           None \<Rightarrow> Inl (KeyError G)
         | Some m \<Rightarrow> bindE (mat_add m hop_mat) (\<lambda>s. Inr (AList.update G s new_hoppings))))"

text \<open>The size check formats its message with \<^verbatim>\<open>len(self.size)\<close>, which raises
  TypeError on an integer before the ValueError exists. The keys of the deep copy are
  those of \<^verbatim>\<open>self.hoppings\<close>.\<close>

definition add_outcome :: "Model \<Rightarrow> Model \<Rightarrow> error + Model" where
  "add_outcome self model =
     (if occ self \<noteq> occ model then Inl (OccMismatch (occ self) (occ model))
      else if size_of self \<noteq> size_of model then Inl TypeError
      else if \<not> uc_match (uc self) (uc model) then Inl (UcMismatch (uc self) (uc model))
      else if \<not> rows_match add_tolerance (pos self) (pos model)
        then Inl (PosMismatch (pos self) (pos model))
      else bindE (foldE add_step (hoppings model) (hoppings self))
             (\<lambda>new_hoppings.
                Model_init (key_kind self) frobenius_cc new_hoppings None (occ self)
                  (Some (pos self)) (uc self) False default_cc_tolerance))"

definition add :: "Model \<Rightarrow> Model \<Rightarrow> Model call" where
  "add model self = (add_outcome self model, self)"

definition mul_outcome :: "complex \<Rightarrow> Model \<Rightarrow> error + Model" where
  "mul_outcome x self =
     Model_init (key_kind self) frobenius_cc
       (to_dict (map (\<lambda>(G, hop_mat). (G, mat_scale x hop_mat)) (hoppings self)))
       None (occ self) (Some (pos self)) (uc self) False default_cc_tolerance"

definition mul :: "complex \<Rightarrow> Model \<Rightarrow> Model call" where
  "mul x self = (mul_outcome x self, self)"

definition neg :: "Model \<Rightarrow> Model call" where
  "neg self = mul (- 1) self"

text \<open>\<^verbatim>\<open>self + -model\<close>: the negation of the right operand comes first.\<close>

definition sub :: "Model \<Rightarrow> Model \<Rightarrow> Model call" where
  "sub model self = (bindE (fst (neg model)) (\<lambda>m. add_outcome self m), self)"

text \<open>\<^verbatim>\<open>self * (1. / x)\<close>: Python raises ZeroDivisionError on a zero divisor.\<close>

definition div_model :: "complex \<Rightarrow> Model \<Rightarrow> Model call" where
  "div_model x self = (if x = 0 then (Inl ZeroDivisionError, self) else mul (1 / x) self)"

subsection \<open>Writing into a block of a dense array\<close>

text \<open>A slice bound on an axis of length \<open>len\<close>: a negative bound counts from the end,
  and every bound is clipped to the axis.\<close>

definition slice_bound :: "nat \<Rightarrow> int \<Rightarrow> nat" where
  "slice_bound len b = (if b < 0 then nat (int len + b) else min (nat b) len)"

text \<open>\<^verbatim>\<open>m[r0:r1, c0:c1] += b\<close>: \<open>b\<close> is broadcast, each of its two dimensions is that of
  the block, or 1.\<close>

definition add_block :: "matrix \<Rightarrow> int \<Rightarrow> int \<Rightarrow> int \<Rightarrow> int \<Rightarrow> matrix \<Rightarrow> error + matrix" where
  "add_block m r0 r1 c0 c1 b =
     (let ra = slice_bound (length m) r0; rb = max ra (slice_bound (length m) r1);
          ca = slice_bound (ncols m) c0; cb = max ca (slice_bound (ncols m) c1);
          bh = length b; bw = ncols b
      in if (bh = rb - ra \<or> bh = 1) \<and> (bw = cb - ca \<or> bw = 1) then
           Inr (map (\<lambda>(i, row).
                  if ra \<le> i \<and> i < rb then
                    map (\<lambda>(j, x).
                      if ca \<le> j \<and> j < cb
                      then x + b ! (if bh = 1 then 0 else i - ra) ! (if bw = 1 then 0 else j - ca)
                      else x) (enumerate 0 row)
                  else row) (enumerate 0 m))
         else Inl InconsistentShapes)"

text \<open>\<^verbatim>\<open>np.diag(v)\<close>\<close>

definition diag :: "complex list \<Rightarrow> matrix" where
  "diag v = map (\<lambda>i. (replicate (length v) 0)[i := v ! i]) [0..<length v]"

text \<open>An integer index into an array of length \<open>n\<close>: a negative index counts from the end.\<close>

definition py_index :: "nat \<Rightarrow> int \<Rightarrow> nat option" where
  "py_index n i =
     (if 0 \<le> i \<and> i < int n then Some (nat i)
      else if - int n \<le> i \<and> i < 0 then Some (nat (int n + i))
      else None)"

definition mat_acc_int :: "matrix \<Rightarrow> int \<Rightarrow> int \<Rightarrow> complex \<Rightarrow> error + matrix" where
  "mat_acc_int m i j t =
     (case (py_index (length m) i, py_index (ncols m) j) of
        (Some a, Some b) \<Rightarrow> mat_acc m a b t
      | _ \<Rightarrow> Inl IndexError)"

subsection \<open>\<^verbatim>\<open>_pos_to_idx\<close>, \<^verbatim>\<open>_edge_detect_pos\<close> and \<^verbatim>\<open>Model.supercell\<close>\<close>

text \<open>\<open>dim\<close> is an \<^verbatim>\<open>int64\<close> array, and so is every position that \<^verbatim>\<open>supercell\<close> passes to
  \<^verbatim>\<open>_pos_to_idx\<close>.\<close>

fun pos_to_idx :: "lattice_vec \<Rightarrow> lattice_vec \<Rightarrow> error + int" where
  "pos_to_idx (p0, p1, p2) (d0, d1, d2) =
     (if p0 \<ge> d0 \<or> p1 \<ge> d1 \<or> p2 \<ge> d2 then Inl IndexError
      else Inr (plus64 (mul64 (plus64 (mul64 p0 d1) p1) d2) p2))"

type_synonym edges = "(bool \<times> bool) \<times> (bool \<times> bool) \<times> (bool \<times> bool)"

fun edge_detect_pos :: "lattice_vec \<Rightarrow> lattice_vec \<Rightarrow> error + edges" where
  "edge_detect_pos (p0, p1, p2) (d0, d1, d2) =
     (if p0 \<ge> d0 \<or> p1 \<ge> d1 \<or> p2 \<ge> d2 then Inl IndexError
      else Inr ((p0 = 0, p0 = wrap64 (d0 - 1)), (p1 = 0, p1 = wrap64 (d1 - 1)),
                (p2 = 0, p2 = wrap64 (d2 - 1))))"

definition py_range :: "int \<Rightarrow> int list" where
  "py_range n = map int [0..<nat n]"

text \<open>The three nested loops \<^verbatim>\<open>for i in range(nx): for j in range(ny): for k in range(nz)\<close>.\<close>

fun cells :: "lattice_vec \<Rightarrow> lattice_vec list" where
  "cells (nx, ny, nz) = [(i, j, k). i \<leftarrow> py_range nx, j \<leftarrow> py_range ny, k \<leftarrow> py_range nz]"

text \<open>\<^verbatim>\<open>sum(dim)\<close> adds the \<^verbatim>\<open>int64\<close> entries one by one.\<close>

fun dim_sum :: "lattice_vec \<Rightarrow> int" where
  "dim_sum (nx, ny, nz) = plus64 (plus64 nx ny) nz"

text \<open>\<^verbatim>\<open>self.size * nx * ny * nz\<close>\<close>

fun dim_prod :: "nat \<Rightarrow> lattice_vec \<Rightarrow> int" where
  "dim_prod n (nx, ny, nz) = mul64 (mul64 (mul64 (int n) nx) ny) nz"

text \<open>\<^verbatim>\<open>self.uc * dim\<close>: the row vector \<open>dim\<close> is broadcast over the rows of \<open>uc\<close>.\<close>

fun scale_cols :: "lattice_vec \<Rightarrow> vec3 \<Rightarrow> vec3" where
  "scale_cols (nx, ny, nz) (x, y, z) = (x * of_int nx, y * of_int ny, z * of_int nz)"

fun uc_times_dim :: "mat3 \<Rightarrow> lattice_vec \<Rightarrow> mat3" where
  "uc_times_dim (r0, r1, r2) dims = (scale_cols dims r0, scale_cols dims r1, scale_cols dims r2)"

fun div_dim :: "vec3 \<Rightarrow> lattice_vec \<Rightarrow> vec3" where
  "div_dim (x, y, z) (nx, ny, nz) = (x / of_int nx, y / of_int ny, z / of_int nz)"

fun add3 :: "vec3 \<Rightarrow> vec3 \<Rightarrow> vec3" where
  "add3 (a, b, c) (x, y, z) = (a + x, b + y, c + z)"

fun sub3 :: "vec3 \<Rightarrow> vec3 \<Rightarrow> vec3" where
  "sub3 (a, b, c) (x, y, z) = (a - x, b - y, c - z)"

fun dot3 :: "vec3 \<Rightarrow> vec3 \<Rightarrow> real" where
  "dot3 (a, b, c) (x, y, z) = a * x + b * y + c * z"

fun real3 :: "lattice_vec \<Rightarrow> vec3" where
  "real3 (a, b, c) = (of_int a, of_int b, of_int c)"

definition supercell_pos :: "lattice_vec \<Rightarrow> vec3 list \<Rightarrow> vec3 list" where
  "supercell_pos dims ps =
     (let reduced_pos = map (\<lambda>p. div_dim p dims) ps in
      concat (map (\<lambda>c. (let tmp_offset = div_dim (real3 c) dims
                         in map (\<lambda>p. add3 tmp_offset p) reduced_pos)) (cells dims)))"

text \<open>\<^verbatim>\<open>uc_idx * self.size + orbital_idx\<close>, where \<open>uc_idx\<close> is an \<^verbatim>\<open>int64\<close>.\<close>

definition full_idx :: "nat \<Rightarrow> lattice_vec \<Rightarrow> lattice_vec \<Rightarrow> nat \<Rightarrow> error + int" where
  "full_idx n dims uc_pos orbital_idx =
     bindE (pos_to_idx uc_pos dims)
       (\<lambda>uc_idx. Inr (plus64 (mul64 uc_idx (int n)) (int orbital_idx)))"

fun outside_supercell :: "lattice_vec \<Rightarrow> lattice_vec \<Rightarrow> bool \<times> bool \<times> bool" where
  "outside_supercell (p0, p1, p2) (d0, d1, d2) =
     (p0 < 0 \<or> p0 \<ge> d0, p1 < 0 \<or> p1 \<ge> d1, p2 < 0 \<or> p2 \<ge> d2)"

fun cut_hop :: "bool \<times> bool \<times> bool \<Rightarrow> bool \<times> bool \<times> bool \<Rightarrow> bool" where
  "cut_hop (per0, per1, per2) (out0, out1, out2) =
     ((\<not> per0 \<and> out0) \<or> (\<not> per1 \<and> out1) \<or> (\<not> per2 \<and> out2))"

text \<open>\<^verbatim>\<open>np.array(np.floor(p / d), dtype=int)\<close> on \<^verbatim>\<open>int64\<close> operands: the division is
  a float division. Below \<open>2\<^sup>5\<^sup>3\<close> its floor is the integer quotient.\<close>

definition floor_div64 :: "int \<Rightarrow> int \<Rightarrow> int" where
  "floor_div64 p d =
     (if \<bar>p\<bar> < 2 ^ 53 \<and> 0 < d \<and> d < 2 ^ 53 then p div d
      else cast_int64 (of_int \<lfloor>rn64 (float64_of_int p / float64_of_int d)\<rfloor>))"

fun div3 :: "lattice_vec \<Rightarrow> lattice_vec \<Rightarrow> lattice_vec" where
  "div3 (p0, p1, p2) (d0, d1, d2) = (floor_div64 p0 d0, floor_div64 p1 d1, floor_div64 p2 d2)"

fun mod3 :: "lattice_vec \<Rightarrow> lattice_vec \<Rightarrow> lattice_vec" where
  "mod3 (p0, p1, p2) (d0, d1, d2) = (p0 mod d0, p1 mod d1, p2 mod d2)"

text \<open>\<^verbatim>\<open>np.zeros((new_size, new_size), dtype=complex)\<close>, the factory of the
  \<^verbatim>\<open>defaultdict\<close>, called when a key is read that the dict does not hold.\<close>

definition np_zeros :: "int \<Rightarrow> error + matrix" where
  "np_zeros new_size =
     (if new_size < 0 then Inl NegativeDimensions else Inr (zeros (nat new_size) (nat new_size)))"

definition dd_new :: "int \<Rightarrow> hopping_table \<Rightarrow> lattice_vec \<Rightarrow> error + matrix" where
  "dd_new new_size d k = (case map_of d k of None \<Rightarrow> np_zeros new_size | Some v \<Rightarrow> Inr v)"

text \<open>The body of the innermost loop over the entries \<open>t\<close> of a hopping matrix.
  \<^verbatim>\<open>np.array(G)\<close> is an \<^verbatim>\<open>int64\<close> array, unless \<open>G\<close> holds a Python int outside the
  \<^verbatim>\<open>int64\<close> range: then it is an array of Python objects, the sum is exact, and
  \<^verbatim>\<open>np.floor\<close> raises TypeError on the quotient.\<close>

definition supercell_entry ::
  "int_kind \<Rightarrow> nat \<Rightarrow> lattice_vec \<Rightarrow> bool \<times> bool \<times> bool \<Rightarrow> int \<Rightarrow> lattice_vec \<Rightarrow> lattice_vec \<Rightarrow> nat
     \<Rightarrow> nat \<times> complex \<Rightarrow> hopping_table \<Rightarrow> error + hopping_table" where
  "supercell_entry kind n dims periodic new_size uc0_pos G i0 it new_hoppings =
     (case it of (i1, t) \<Rightarrow>
        bindE (full_idx n dims uc0_pos i0)
          (\<lambda>new_i0.
             (let objects = (kind = PyInt \<and> \<not> in_int64_3 G);
                  full_uc1_pos = (if objects then add_G uc0_pos G else add64 uc0_pos G)
              in
              if cut_hop periodic (outside_supercell full_uc1_pos dims) then Inr new_hoppings
              else if objects then Inl TypeError
              else
                (let new_G = div3 full_uc1_pos dims;
                     uc1_pos = mod3 full_uc1_pos dims
                 in bindE (full_idx n dims uc1_pos i1)
                      (\<lambda>new_i1.
                         bindE (dd_new new_size new_hoppings new_G)
                           (\<lambda>m0. bindE (mat_acc_int m0 new_i0 new_i1 t)
                              (\<lambda>m. Inr (AList.update new_G m new_hoppings))))))))"

definition supercell_cell ::
  "int_kind \<Rightarrow> nat \<Rightarrow> lattice_vec \<Rightarrow> bool \<times> bool \<times> bool \<Rightarrow> int \<Rightarrow> hopping_table \<Rightarrow> lattice_vec
     \<Rightarrow> hopping_table \<Rightarrow> error + hopping_table" where
  "supercell_cell kind n dims periodic new_size hop uc0_pos new_hoppings =
     foldE (\<lambda>(G, hop_mat).
              foldE (\<lambda>(i0, row).
                       foldE (supercell_entry kind n dims periodic new_size uc0_pos G i0)
                         (enumerate 0 row))
                (enumerate 0 hop_mat))
       hop new_hoppings"

text \<open>\<^verbatim>\<open>(i * ny * nz + j * nz + k) * self.size\<close>: \<open>ny\<close> and \<open>nz\<close> are \<^verbatim>\<open>int64\<close>.\<close>

fun passivation_index :: "lattice_vec \<Rightarrow> lattice_vec \<Rightarrow> nat \<Rightarrow> int" where
  "passivation_index (i, j, k) (nx, ny, nz) n =
     mul64 (plus64 (plus64 (mul64 (mul64 i ny) nz) (mul64 j nz)) k) (int n)"

definition passivation_step ::
  "nat \<Rightarrow> lattice_vec \<Rightarrow> int \<Rightarrow> (bool \<times> bool \<Rightarrow> bool \<times> bool \<Rightarrow> bool \<times> bool \<Rightarrow> real list)
     \<Rightarrow> lattice_vec \<Rightarrow> hopping_table \<Rightarrow> error + hopping_table" where
  "passivation_step n dims new_size passivation c new_hoppings =
     (let idx = passivation_index c dims n in
      bindE (dd_new new_size new_hoppings (0, 0, 0))
        (\<lambda>m. bindE (edge_detect_pos c dims)
           (\<lambda>(ex, ey, ez).
              bindE (add_block m idx (plus64 idx (int n)) idx (plus64 idx (int n))
                       (diag (map (\<lambda>v. complex_of_real (v * (1 / 2))) (passivation ex ey ez))))
                (\<lambda>m'. Inr (AList.update (0, 0, 0) m' new_hoppings)))))"

text \<open>\<^verbatim>\<open>sum(dim) * self.occ\<close> multiplies an \<^verbatim>\<open>int64\<close> by a Python int: the product wraps
  around. On a Python int outside the \<^verbatim>\<open>int64\<close> range numpy raises OverflowError (from
  version 2 on; older versions fall back to float or object arithmetic, which is not
  modelled). \<^verbatim>\<open>np.array(dim, dtype=int)\<close> raises OverflowError likewise.\<close>

definition supercell_occ :: "lattice_vec \<Rightarrow> int option \<Rightarrow> error + int option" where
  "supercell_occ dims occ_self =
     (case occ_self of
        None \<Rightarrow> Inr None
      | Some oc \<Rightarrow> if in_int64 oc then Inr (Some (mul64 (dim_sum dims) oc)) else Inl OverflowError)"

definition supercell_outcome ::
  "lattice_vec \<Rightarrow> bool \<times> bool \<times> bool
     \<Rightarrow> (bool \<times> bool \<Rightarrow> bool \<times> bool \<Rightarrow> bool \<times> bool \<Rightarrow> real list) option
     \<Rightarrow> Model \<Rightarrow> error + Model" where
  "supercell_outcome dims periodic passivation_arg self =
     (if \<not> in_int64_3 dims then Inl OverflowError
      else
        bindE (supercell_occ dims (occ self))
          (\<lambda>new_occ.
             (let new_uc = (case uc self of None \<Rightarrow> None | Some u \<Rightarrow> Some (uc_times_dim u dims));
                  new_pos = supercell_pos dims (pos self);
                  new_size = dim_prod (size_of self) dims;
                  passivation = (case passivation_arg of
                                   None \<Rightarrow> (\<lambda>x y z. replicate (size_of self) 0)
                                 | Some f \<Rightarrow> f)
              in bindE (foldE (supercell_cell (key_kind self) (size_of self) dims periodic new_size
                                 (hoppings self))
                          (cells dims) [])
                   (\<lambda>nh1.
                      bindE (foldE (passivation_step (size_of self) dims new_size passivation)
                               (cells dims) nh1)
                        (\<lambda>nh2.
                           Model_init NpInt64 frobenius_cc nh2 None new_occ (Some new_pos) new_uc
                             False default_cc_tolerance)))))"

definition supercell ::
  "lattice_vec \<Rightarrow> bool \<times> bool \<times> bool
     \<Rightarrow> (bool \<times> bool \<Rightarrow> bool \<times> bool \<Rightarrow> bool \<times> bool \<Rightarrow> real list) option
     \<Rightarrow> Model \<Rightarrow> Model call" where
  "supercell dims periodic passivation_arg self =
     (supercell_outcome dims periodic passivation_arg self, self)"

subsection \<open>\<^verbatim>\<open>Model.trs\<close>\<close>

text \<open>\<^verbatim>\<open>np.vstack([self.pos, self.pos])\<close>. Stacking two empty position arrays gives an
  array of two rows; they have no coordinates, and stand here as two origin rows (the
  constructor then refuses them by their number alone).\<close>

definition vstack2 :: "vec3 list \<Rightarrow> vec3 list" where
  "vstack2 ps = (if ps = [] then [(0, 0, 0), (0, 0, 0)] else ps @ ps)"

definition trs_step :: "nat \<Rightarrow> lattice_vec \<times> matrix \<Rightarrow> hopping_table \<Rightarrow> error + hopping_table" where
  "trs_step n Gh new_hoppings =
     (case Gh of (G, hop) \<Rightarrow>
        (let m0 = (case map_of new_hoppings G of
                     None \<Rightarrow> zeros (2 * n) (2 * n)
                   | Some m \<Rightarrow> m)
         in bindE (add_block m0 0 (int n) 0 (int n) hop)
              (\<lambda>m1. bindE (add_block m1 (int n) (int (length m1)) (int n) (int (ncols m1))
                               (mat_conj hop))
                 (\<lambda>m2. Inr (AList.update G m2 new_hoppings)))))"

text \<open>\<^verbatim>\<open>self.occ * 2\<close> is a product of Python ints.\<close>

definition trs_outcome :: "Model \<Rightarrow> error + Model" where
  "trs_outcome self =
     (let new_occ = (case occ self of None \<Rightarrow> None | Some oc \<Rightarrow> Some (oc * 2));
          new_pos = vstack2 (pos self)
      in bindE (foldE (trs_step (size_of self)) (hoppings self) [])
           (\<lambda>new_hoppings.
              Model_init (key_kind self) frobenius_cc new_hoppings None new_occ (Some new_pos)
                (uc self) False default_cc_tolerance))"

definition trs :: "Model \<Rightarrow> Model call" where
  "trs self = (trs_outcome self, self)"

subsection \<open>\<^verbatim>\<open>Model.change_uc\<close>\<close>

text \<open>\<^verbatim>\<open>np.dot(self.uc, uc)\<close> and \<^verbatim>\<open>np.dot(self.uc, p)\<close>\<close>

fun mat3_vec :: "mat3 \<Rightarrow> vec3 \<Rightarrow> vec3" where
  "mat3_vec (r0, r1, r2) v = (dot3 r0 v, dot3 r1 v, dot3 r2 v)"

fun col3 :: "mat3 \<Rightarrow> nat \<Rightarrow> vec3" where
  "col3 ((a, b, c), (d, e, f), (g, h, i)) j =
     (if j = 0 then (a, d, g) else if j = 1 then (b, e, h) else (c, f, i))"

definition mat3_mul :: "mat3 \<Rightarrow> mat3 \<Rightarrow> mat3" where
  "mat3_mul A B =
     (case A of (r0, r1, r2) \<Rightarrow>
        ((dot3 r0 (col3 B 0), dot3 r0 (col3 B 1), dot3 r0 (col3 B 2)),
         (dot3 r1 (col3 B 0), dot3 r1 (col3 B 1), dot3 r1 (col3 B 2)),
         (dot3 r2 (col3 B 0), dot3 r2 (col3 B 1), dot3 r2 (col3 B 2))))"

fun float3 :: "lattice_vec \<Rightarrow> vec3" where
  "float3 (a, b, c) = (float64_of_int a, float64_of_int b, float64_of_int c)"

fun cast3 :: "vec3 \<Rightarrow> lattice_vec" where
  "cast3 (x, y, z) = (cast_int64 x, cast_int64 y, cast_int64 z)"

text \<open>One entry of the dict comprehension
  \<^verbatim>\<open>{tuple(np.array(la.solve(uc, G), dtype=int)): hop_mat for G, hop_mat in ...}\<close>.
  \<^verbatim>\<open>la.solve\<close> converts the integers of \<open>G\<close> to floats, and refuses the array of Python
  objects that a Python int outside the \<^verbatim>\<open>int64\<close> range makes of \<open>G\<close>.\<close>

definition change_uc_key ::
  "int_kind \<Rightarrow> (mat3 \<Rightarrow> vec3 \<Rightarrow> vec3) \<Rightarrow> mat3 \<Rightarrow> lattice_vec \<times> matrix \<Rightarrow> hopping_table
     \<Rightarrow> error + hopping_table" where
  "change_uc_key kind la_solve uc_arg Gh new_hoppings =
     (case Gh of (G, hop_mat) \<Rightarrow>
        if kind = PyInt \<and> \<not> in_int64_3 G then Inl ObjectArray
        else Inr (AList.update (cast3 (la_solve uc_arg (float3 G))) hop_mat new_hoppings))"

text \<open>\<open>la_det\<close> and \<open>la_solve\<close> are \<^verbatim>\<open>la.det\<close> and \<^verbatim>\<open>la.solve\<close> of scipy.\<close>

definition change_uc_outcome ::
  "(mat3 \<Rightarrow> real) \<Rightarrow> (mat3 \<Rightarrow> vec3 \<Rightarrow> vec3) \<Rightarrow> mat3 \<Rightarrow> Model \<Rightarrow> error + Model" where
  "change_uc_outcome la_det la_solve uc_arg self =
     (if la_det uc_arg \<noteq> 1 then Inl (BadDeterminant (la_det uc_arg))
      else
        (let new_uc = (case uc self of None \<Rightarrow> None | Some u \<Rightarrow> Some (mat3_mul u uc_arg));
             new_pos = map (la_solve uc_arg) (pos self)
         in bindE (foldE (change_uc_key (key_kind self) la_solve uc_arg) (hoppings self) [])
              (\<lambda>new_hoppings.
                 Model_init NpInt64 frobenius_cc new_hoppings None (occ self) (Some new_pos) new_uc
                   False default_cc_tolerance)))"

definition change_uc ::
  "(mat3 \<Rightarrow> real) \<Rightarrow> (mat3 \<Rightarrow> vec3 \<Rightarrow> vec3) \<Rightarrow> mat3 \<Rightarrow> Model \<Rightarrow> Model call" where
  "change_uc la_det la_solve uc_arg self = (change_uc_outcome la_det la_solve uc_arg self, self)"

text \<open>The two routines over exact numbers: the determinant, and Cramer's rule.\<close>

fun det3 :: "mat3 \<Rightarrow> real" where
  "det3 ((a, b, c), (d, e, f), (g, h, i)) =
     a * (e * i - f * h) - b * (d * i - f * g) + c * (d * h - e * g)"

fun solve3 :: "mat3 \<Rightarrow> vec3 \<Rightarrow> vec3" where
  "solve3 ((a, b, c), (d, e, f), (g, h, i)) (x, y, z) =
     (let dt = det3 ((a, b, c), (d, e, f), (g, h, i)) in
      (det3 ((x, b, c), (y, e, f), (z, h, i)) / dt,
       det3 ((a, x, c), (d, y, f), (g, z, i)) / dt,
       det3 ((a, b, x), (d, e, y), (g, h, z)) / dt))"

subsection \<open>\<^verbatim>\<open>Model.em_field\<close>\<close>

text \<open>\<^verbatim>\<open>new_hoppings[(0, 0, 0)][i, i] += rhs\<close> on the deep copy, a plain dict of sparse
  matrices: the dict lookup and the read of the entry come before the right-hand side.\<close>

definition on_site_add :: "hopping_table \<Rightarrow> nat \<Rightarrow> error + real \<Rightarrow> error + hopping_table" where
  "on_site_add new_hoppings i rhs =
     (case map_of new_hoppings (0, 0, 0) of
        None \<Rightarrow> Inl (KeyError (0, 0, 0))
      | Some m \<Rightarrow>
          if i < length m \<and> i < length (m ! i) then
            bindE rhs (\<lambda>v. bindE (mat_acc m i i (complex_of_real v))
              (\<lambda>m'. Inr (AList.update (0, 0, 0) m' new_hoppings)))
          else Inl IndexError)"

definition scalar_step ::
  "(vec3 \<Rightarrow> real) \<Rightarrow> real \<Rightarrow> string \<Rightarrow> mat3 option \<Rightarrow> nat \<times> vec3 \<Rightarrow> hopping_table
     \<Rightarrow> error + hopping_table" where
  "scalar_step scalar_pot prefactor_scalar mode_scalar u ip new_hoppings =
     (case ip of (i, p) \<Rightarrow>
        if mode_scalar = ''relative'' then
          on_site_add new_hoppings i (Inr (1 / 2 * prefactor_scalar * scalar_pot p))
        else if mode_scalar = ''absolute'' then
          on_site_add new_hoppings i
            (case u of
               None \<Rightarrow> Inl TypeError
             | Some U \<Rightarrow> Inr (1 / 2 * prefactor_scalar * scalar_pot (mat3_vec U p)))
        else Inl BadModeScalar)"

text \<open>\<^verbatim>\<open>np.vstack(hop_mat.nonzero()).T\<close>: the index pairs of the non-zero entries, row by
  row.\<close>

definition nonzero_idx :: "matrix \<Rightarrow> (nat \<times> nat) list" where
  "nonzero_idx m =
     concat (map (\<lambda>(i0, row). map (\<lambda>(i1, t). (i0, i1))
                                  (filter (\<lambda>(i1, t). t \<noteq> 0) (enumerate 0 row)))
               (enumerate 0 m))"

text \<open>A float that a vector potential returns is finite, \<open>Some x\<close>, or not (an infinity or
  NaN), \<open>None\<close>. A difference with an operand that is not finite is not finite, and so is
  a dot product with such a component: a product of a float with an infinity or NaN is
  an infinity or NaN, and no sum of floats leads back from there.\<close>

type_synonym ext_real = "real option"
type_synonym ext_vec3 = "ext_real \<times> ext_real \<times> ext_real"

fun ext_sub :: "ext_real \<Rightarrow> ext_real \<Rightarrow> ext_real" where
  "ext_sub (Some a) (Some b) = Some (a - b)"
| "ext_sub _ _ = None"

fun ext_sub3 :: "ext_vec3 \<Rightarrow> ext_vec3 \<Rightarrow> ext_vec3" where
  "ext_sub3 (a, b, c) (x, y, z) = (ext_sub a x, ext_sub b y, ext_sub c z)"

fun ext_dot3 :: "vec3 \<Rightarrow> ext_vec3 \<Rightarrow> ext_real" where
  "ext_dot3 (a, b, c) (Some x, Some y, Some z) = Some (a * x + b * y + c * z)"
| "ext_dot3 _ _ = None"

text \<open>An entry of a matrix after the vector-potential loop: a complex number, or NaN in
  both parts. The exponential of \<open>-i p x\<close> is NaN in both parts when \<open>x\<close> is not finite, and
  so is its product with a complex number.\<close>

datatype cnum = Num complex | NaN

fun cnum_times :: "cnum \<Rightarrow> cnum \<Rightarrow> cnum" where
  "cnum_times (Num a) (Num b) = Num (a * b)"
| "cnum_times _ _ = NaN"

type_synonym written_matrix = "cnum list list"
type_synonym written_table = "(lattice_vec \<times> written_matrix) list"

definition as_written :: "matrix \<Rightarrow> written_matrix" where
  "as_written m = map (map Num) m"

definition table_as_written :: "hopping_table \<Rightarrow> written_table" where
  "table_as_written h = map (\<lambda>(G, m). (G, as_written m)) h"

text \<open>The factor of one round of the vector-potential loop. The source reads both
  positions at \<open>i0\<close>: \<^verbatim>\<open>p0 = self.pos[i0]\<close> and \<^verbatim>\<open>p1 = self.pos[i0]\<close>.\<close>

definition peierls_factor ::
  "(vec3 \<Rightarrow> ext_vec3) \<Rightarrow> real \<Rightarrow> string \<Rightarrow> mat3 \<Rightarrow> vec3 list \<Rightarrow> lattice_vec \<Rightarrow> nat \<times> nat
     \<Rightarrow> error + cnum" where
  "peierls_factor vec_pot prefactor_vec mode_vec U ps G i01 =
     (case i01 of (i0, i1) \<Rightarrow>
        if i0 < length ps then
          (let p0 = ps ! i0; p1 = ps ! i0;
               r0 = mat3_vec U p0; r1 = mat3_vec U p1
           in bindE
                (if mode_vec = ''absolute''
                   then Inr (vec_pot (mat3_vec U (mod1 p0)), vec_pot (mat3_vec U (mod1 p1)))
                 else if mode_vec = ''relative''
                   then Inr (vec_pot (mod1 p0), vec_pot (mod1 p1))
                 else Inl BadModeVec)
                (\<lambda>(A0, A1).
                   Inr (case ext_dot3 (sub3 (add3 (real3 G) r1) r0) (ext_sub3 A1 A0) of
                          None \<Rightarrow> NaN
                        | Some d \<Rightarrow>
                            Num (exp (- \<i> * complex_of_real prefactor_vec * complex_of_real d)))))
        else Inl IndexError)"

text \<open>\<^verbatim>\<open>hop_mat[i0, i1] *= factor\<close>, where \<open>hop_mat\<close> is a matrix of \<^verbatim>\<open>self.hoppings\<close>.
  The loops keep what they have written when a round raises.\<close>

fun vec_matrix_loop ::
  "(nat \<times> nat \<Rightarrow> error + cnum) \<Rightarrow> (nat \<times> nat) list \<Rightarrow> written_matrix
     \<Rightarrow> error option \<times> written_matrix" where
  "vec_matrix_loop f [] hop_mat = (None, hop_mat)"
| "vec_matrix_loop f ((i0, i1) # rest) hop_mat =
     (case f (i0, i1) of
        Inl e \<Rightarrow> (Some e, hop_mat)
      | Inr z \<Rightarrow>
          vec_matrix_loop f rest
            (hop_mat[i0 := (hop_mat ! i0)[i1 := cnum_times (hop_mat ! i0 ! i1) z]]))"

fun vec_table_loop ::
  "(lattice_vec \<Rightarrow> nat \<times> nat \<Rightarrow> error + cnum) \<Rightarrow> hopping_table
     \<Rightarrow> error option \<times> written_table" where
  "vec_table_loop f [] = (None, [])"
| "vec_table_loop f ((G, hop_mat) # rest) =
     (case vec_matrix_loop (f G) (nonzero_idx hop_mat) (as_written hop_mat) of
        (Some e, m) \<Rightarrow> (Some e, (G, m) # table_as_written rest)
      | (None, m) \<Rightarrow>
          (case vec_table_loop f rest of (r, rest') \<Rightarrow> (r, (G, m) # rest')))"

text \<open>The outcome of \<^verbatim>\<open>em_field\<close>, and the hopping table of \<open>self\<close> after the call (the
  method assigns to nothing else of \<open>self\<close>).\<close>

definition em_field ::
  "(vec3 \<Rightarrow> real) option \<Rightarrow> (vec3 \<Rightarrow> ext_vec3) option \<Rightarrow> real \<Rightarrow> real \<Rightarrow> string \<Rightarrow> string
     \<Rightarrow> Model \<Rightarrow> (error + Model) \<times> written_table" where
  "em_field scalar_pot vec_pot prefactor_scalar prefactor_vec mode_scalar mode_vec self =
     (case (case scalar_pot of
              None \<Rightarrow> Inr (hoppings self)
            | Some f \<Rightarrow>
                foldE (scalar_step f prefactor_scalar mode_scalar (uc self))
                  (enumerate 0 (pos self)) (hoppings self)) of
        Inl e \<Rightarrow> (Inl e, table_as_written (hoppings self))
      | Inr new_hoppings \<Rightarrow>
          (case vec_pot of
             None \<Rightarrow>
               (Model_init (key_kind self) frobenius_cc new_hoppings None (occ self)
                  (Some (pos self)) (uc self) False default_cc_tolerance,
                table_as_written (hoppings self))
           | Some A \<Rightarrow>
               (case uc self of
                  None \<Rightarrow> (Inl UnitCellMissing, table_as_written (hoppings self))
                | Some U \<Rightarrow>
                    (case vec_table_loop (peierls_factor A prefactor_vec mode_vec U (pos self))
                            (hoppings self) of
                       (Some e, h) \<Rightarrow> (Inl e, h)
                     | (None, h) \<Rightarrow>
                         (Model_init (key_kind self) frobenius_cc new_hoppings None (occ self)
                            (Some (pos self)) (uc self) False default_cc_tolerance,
                          h)))))"

text \<open>A vector potential that returns finite floats.\<close>

definition finite_pot :: "(vec3 \<Rightarrow> vec3) \<Rightarrow> vec3 \<Rightarrow> ext_vec3" where
  "finite_pot A r = (case A r of (x, y, z) \<Rightarrow> (Some x, Some y, Some z))"

section \<open>Invariants of a constructed model\<close>

text \<open>A key obeys the canonical-storage rule when it is the origin or its first non-zero
  coordinate is positive; a table obeys it when its keys are distinct and all obey it.\<close>

definition canonical_key :: "lattice_vec \<Rightarrow> bool" where
  "canonical_key G = (G = (0, 0, 0) \<or> first_nonzero_positive G)"

definition canonical_keys :: "hopping_table \<Rightarrow> bool" where
  "canonical_keys h = (distinct (map fst h) \<and> list_all canonical_key (map fst h))"

text \<open>What every constructor call establishes: as many positions as orbitals, square
  matrices of the model's size, no key twice.\<close>

definition model_inv :: "Model \<Rightarrow> bool" where
  "model_inv m =
     (length (pos m) = size_of m \<and>
      list_all (has_shape (size_of m) (size_of m)) (map snd (hoppings m)) \<and>
      distinct (map fst (hoppings m)))"

text \<open>The positions for which \<^verbatim>\<open>_map_to_uc\<close> takes its fast path: every offset
  \<^verbatim>\<open>floor(p)\<close> is zero.\<close>

definition in_home_cell :: "vec3 list \<Rightarrow> bool" where
  "in_home_cell ps = list_all (\<lambda>p. uc_offset p = (0, 0, 0)) ps"

text \<open>The first non-zero coordinate of a key (0 for the origin), and the keys whose
  negation by the source has the opposite sign there: all keys of Python ints, and the
  \<^verbatim>\<open>int64\<close> keys that do not start with \<open>-2\<^sup>6\<^sup>3\<close>.\<close>

fun first_nonzero :: "lattice_vec \<Rightarrow> int" where
  "first_nonzero (a, b, c) = (if a \<noteq> 0 then a else if b \<noteq> 0 then b else c)"

definition negation_safe :: "int_kind \<Rightarrow> lattice_vec \<Rightarrow> bool" where
  "negation_safe kind G = (kind = PyInt \<or> (in_int64_3 G \<and> first_nonzero G \<noteq> - (2 ^ 63)))"

text \<open>The keys that the source negates without wrap-around in any coordinate.\<close>

fun inside_int64 :: "lattice_vec \<Rightarrow> bool" where
  "inside_int64 (a, b, c) = (\<bar>a\<bar> < 2 ^ 63 \<and> \<bar>b\<bar> < 2 ^ 63 \<and> \<bar>c\<bar> < 2 ^ 63)"

definition negation_exact :: "int_kind \<Rightarrow> lattice_vec \<Rightarrow> bool" where
  "negation_exact kind G = (kind = PyInt \<or> inside_int64 G)"

text \<open>The keys that the conversion to float64 and back leaves as they are.\<close>

fun float_exact :: "lattice_vec \<Rightarrow> bool" where
  "float_exact (a, b, c) = (\<bar>a\<bar> \<le> 2 ^ 53 \<and> \<bar>b\<bar> \<le> 2 ^ 53 \<and> \<bar>c\<bar> \<le> 2 ^ 53)"

section \<open>Example inputs\<close>

text \<open>A one-orbital chain given with both conjugate partners and the full on-site term.\<close>

definition chain_full :: hopping_table where
  "chain_full = [((1, 0, 0), [[1]]), ((- 1, 0, 0), [[1]]), ((0, 0, 0), [[2]])]"

definition chain_model :: Model where
  "chain_model =
     \<lparr> size_of = 1, occ = None, pos = [(0, 0, 0)], uc = None,
       hoppings = [((1, 0, 0), [[1]]), ((0, 0, 0), [[1]])], key_kind = PyInt \<rparr>"

text \<open>The same chain with nothing stored: a model of one orbital and no hopping at all.\<close>

definition empty_model :: Model where
  "empty_model =
     \<lparr> size_of = 1, occ = None, pos = [(0, 0, 0)], uc = None, hoppings = [],
       key_kind = PyInt \<rparr>"

definition empty_model2 :: Model where
  "empty_model2 =
     \<lparr> size_of = 2, occ = None, pos = [(0, 0, 0), (0, 0, 0)], uc = None, hoppings = [],
       key_kind = PyInt \<rparr>"

text \<open>One orbital with an on-site term only, and one orbital with a nearest-neighbour
  hopping only.\<close>

definition onsite_model :: Model where
  "onsite_model =
     \<lparr> size_of = 1, occ = None, pos = [(0, 0, 0)], uc = None,
       hoppings = [((0, 0, 0), [[1]])], key_kind = PyInt \<rparr>"

definition hop_model :: Model where
  "hop_model =
     \<lparr> size_of = 1, occ = None, pos = [(0, 0, 0)], uc = None,
       hoppings = [((1, 0, 0), [[1]])], key_kind = PyInt \<rparr>"

text \<open>The same hopping given from the other end.\<close>

definition back_hop :: hopping_table where
  "back_hop = [((- 1, 0, 0), [[1]])]"

text \<open>Two orbitals half a cell apart in a cubic unit cell, the first hopping to the second
  one cell further; a vector potential that grows along \<open>x\<close>; and one whose \<open>x\<close> component
  is infinite everywhere.\<close>

definition unit_uc :: mat3 where
  "unit_uc = ((1, 0, 0), (0, 1, 0), (0, 0, 1))"

definition two_site_hoppings :: hopping_table where
  "two_site_hoppings = [((1, 0, 0), [[0, 1], [0, 0]])]"

definition two_site :: Model where
  "two_site =
     \<lparr> size_of = 2, occ = None, pos = [(0, 0, 0), (1 / 2, 0, 0)], uc = Some unit_uc,
       hoppings = two_site_hoppings, key_kind = PyInt \<rparr>"

definition linear_A :: "vec3 \<Rightarrow> vec3" where
  "linear_A r = (case r of (x, y, z) \<Rightarrow> (4 / 3 * x, 0, 0))"

definition infinite_A :: "vec3 \<Rightarrow> ext_vec3" where
  "infinite_A r = (None, Some 0, Some 0)"

text \<open>Two dicts with the same two entries in either order: a hopping without its
  conjugate partner, and an on-site block that is not Hermitian.\<close>

definition lone_then_skew :: hopping_table where
  "lone_then_skew = [((1, 0, 0), [[1]]), ((0, 0, 0), [[\<i>]])]"

definition skew_then_lone :: hopping_table where
  "skew_then_lone = [((0, 0, 0), [[\<i>]]), ((1, 0, 0), [[1]])]"

text \<open>One orbital whose stored on-site block is not Hermitian.\<close>

definition skew_model :: Model where
  "skew_model =
     \<lparr> size_of = 1, occ = None, pos = [(0, 0, 0)], uc = None,
       hoppings = [((0, 0, 0), [[\<i>]])], key_kind = PyInt \<rparr>"

text \<open>The chain with one occupied state, and with \<open>2\<^sup>6\<^sup>2\<close> of them.\<close>

definition chain_model_occ :: Model where
  "chain_model_occ = chain_model\<lparr>occ := Some 1\<rparr>"

definition chain_model_big_occ :: Model where
  "chain_model_big_occ = chain_model\<lparr>occ := Some (2 ^ 62)\<rparr>"

text \<open>Two orbitals \<open>2\<^sup>6\<^sup>3\<close> cells apart, with one hopping inside the cell of the dict.\<close>

definition far_apart_pos :: "vec3 list" where
  "far_apart_pos = [(2 ^ 62, 0, 0), (- (2 ^ 62), 0, 0)]"

definition far_apart_hoppings :: hopping_table where
  "far_apart_hoppings = [((0, 0, 0), [[0, 1], [0, 0]])]"

section \<open>What the documentation promises\<close>

text \<open>The Peierls factor as the docstring of \<^verbatim>\<open>em_field\<close> gives it, for a hopping from
  position \<open>r0\<close> to position \<open>r1\<close> across the lattice vector \<open>G\<close>:
  \<open>exp(-i p\<^sub>v (G + r1 - r0) \<cdot> (A(r1) - A(r0)))\<close>.\<close>

definition peierls_phase_spec ::
  "(vec3 \<Rightarrow> vec3) \<Rightarrow> real \<Rightarrow> vec3 \<Rightarrow> vec3 \<Rightarrow> lattice_vec \<Rightarrow> complex" where
  "peierls_phase_spec A prefactor_vec r0 r1 G =
     exp (- \<i> * complex_of_real prefactor_vec
          * complex_of_real (dot3 (sub3 (add3 (real3 G) r1) r0) (sub3 (A r1) (A r0))))"

section \<open>The consistency check of one key\<close>

text \<open>The conjugate transpose, \<^verbatim>\<open>.T.conjugate()\<close>.\<close>

definition dagger :: "matrix \<Rightarrow> matrix" where
  "dagger m = mat_conj (mat_T m)"

text \<open>A stored key \<open>G\<close> keeps within the tolerance: the partner that the loop of
  \<^verbatim>\<open>_reduce_hoppings\<close> looks up is stored, its conjugate transpose has the shape of the
  matrix of \<open>G\<close>, and the norm of the difference does not exceed the tolerance.\<close>

definition pair_within ::
  "int_kind \<Rightarrow> (matrix \<Rightarrow> matrix \<Rightarrow> real) \<Rightarrow> hopping_table \<Rightarrow> real \<Rightarrow> lattice_vec \<times> matrix \<Rightarrow> bool"
  where
  "pair_within kind cc_norm hop tol Gh =
     (case Gh of (G, m) \<Rightarrow>
        (case map_of hop (neg_G kind G) of
           None \<Rightarrow> False
         | Some p \<Rightarrow> map length m = map length (dagger p) \<and> \<not> cc_norm m p > tol))"

section \<open>The expanded table of the round trip\<close>

text \<open>The negation of a lattice vector.\<close>

fun minus_G :: "lattice_vec \<Rightarrow> lattice_vec" where
  "minus_G (a, b, c) = (- a, - b, - c)"

text \<open>Modelled from the spec: the fully expanded table of a model, from which the
  round-trip property starts. No method of the source builds it (\<^verbatim>\<open>to_hr\<close> raises
  NotImplementedError), so it is written as the property words it: every stored \<open>G\<close>
  other than the origin comes back together with \<open>-G\<close>, which carries the conjugate
  transpose, and the block at the origin gets its own conjugate transpose added.\<close>

definition expand_hoppings :: "hopping_table \<Rightarrow> hopping_table" where
  "expand_hoppings h =
     concat (map (\<lambda>(G, m). if G = (0, 0, 0) then [(G, mat_plus m (dagger m))]
                             else [(G, m), (minus_G G, dagger m)]) h)"

text \<open>What the round trip leaves of an entry: the block at the origin comes back as its
  Hermitian average, every other block as it was.\<close>

definition symmetrize_onsite :: "lattice_vec \<times> matrix \<Rightarrow> lattice_vec \<times> matrix" where
  "symmetrize_onsite Gm =
     (case Gm of (G, m) \<Rightarrow>
        if G = (0, 0, 0) then (G, mat_scale (1 / 2) (mat_plus m (dagger m))) else (G, m))"

section \<open>Tables of one shape, cells of a supercell\<close>

text \<open>Every matrix of the table is \<open>N \<times> N\<close>.\<close>

definition table_shape :: "nat \<Rightarrow> hopping_table \<Rightarrow> bool" where
  "table_shape N t = list_all (has_shape N N) (map snd t)"

text \<open>The unit-cell coordinate \<open>c\<close> lies inside a supercell of dimensions \<open>dims\<close>.\<close>

definition in_cell :: "lattice_vec \<Rightarrow> lattice_vec \<Rightarrow> bool" where
  "in_cell c dims =
     (case (c, dims) of ((p0, p1, p2), (d0, d1, d2)) \<Rightarrow>
        0 \<le> p0 \<and> p0 < d0 \<and> 0 \<le> p1 \<and> p1 < d1 \<and> 0 \<le> p2 \<and> p2 < d2)"

text \<open>The keys that \<^verbatim>\<open>supercell\<close> converts to an \<^verbatim>\<open>int64\<close> array.\<close>

definition keys_fit_int64 :: "Model \<Rightarrow> bool" where
  "keys_fit_int64 m = (key_kind m = NpInt64 \<or> list_all in_int64_3 (map fst (hoppings m)))"

section \<open>Sums over the stored table\<close>

text \<open>\<open>\<Sum>\<^sub>G h(G) \<cdot> exp(2\<pi>i G\<cdot>k)\<close> over the stored keys, an \<open>n \<times> n\<close> matrix (the zero matrix
  for the empty table).\<close>

definition bloch_sum :: "nat \<Rightarrow> vec3 \<Rightarrow> hopping_table \<Rightarrow> matrix" where
  "bloch_sum n k h = fold (\<lambda>Gh S. mat_plus S (bloch_term k Gh)) h (zeros n n)"

text \<open>The first table with the matrices of the second added at the keys they share.\<close>

definition add_tables :: "hopping_table \<Rightarrow> hopping_table \<Rightarrow> hopping_table" where
  "add_tables h1 h2 =
     map (\<lambda>(G, a). case map_of h2 G of None \<Rightarrow> (G, a) | Some b \<Rightarrow> (G, mat_plus a b)) h1"

section \<open>Exceptions and loops\<close>

lemma bindE_Inr_iff: "bindE x f = Inr y \<longleftrightarrow> (\<exists>a. x = Inr a \<and> f a = Inr y)"
  by (cases x) auto

lemma foldE_invariant:
  assumes "foldE f xs s = Inr s'" and "P s"
    and "\<And>x t t'. x \<in> set xs \<Longrightarrow> P t \<Longrightarrow> f x t = Inr t' \<Longrightarrow> P t'"
  shows "P s'"
  using assms
proof (induction xs arbitrary: s)
  case Nil
  then show ?case by simp
next
  case (Cons x xs)
  from Cons.prems(1) obtain t where t: "f x s = Inr t" and r: "foldE f xs t = Inr s'"
    by (auto simp: bindE_Inr_iff)
  have "P t" using Cons.prems(2,3) t by auto
  with Cons.IH[OF r] Cons.prems(3) show ?case by auto
qed

section \<open>Shapes and entries of matrices\<close>

lemma has_shape_length: "has_shape r c m \<Longrightarrow> length m = r"
  by (simp add: has_shape_def)

lemma has_shape_row: "has_shape r c m \<Longrightarrow> i < r \<Longrightarrow> length (m ! i) = c"
  by (auto simp: has_shape_def list_all_length)

lemma has_shape_map_length: "has_shape r c m \<Longrightarrow> map length m = replicate r c"
  by (auto simp: has_shape_def list_all_length intro!: nth_equalityI)

lemma has_shape_square_ncols: "has_shape k k m \<Longrightarrow> ncols m = k"
  by (cases m) (auto simp: has_shape_def ncols_def)

lemma has_shape_I:
  "length m = r \<Longrightarrow> (\<And>i. i < r \<Longrightarrow> length (m ! i) = c) \<Longrightarrow> has_shape r c m"
  by (auto simp: has_shape_def list_all_length)

lemma has_shape_zeros: "has_shape r c (zeros r c)"
  by (simp add: has_shape_def zeros_def list_all_length)

lemma has_shape_mat_conj: "has_shape r c m \<Longrightarrow> has_shape r c (mat_conj m)"
  by (simp add: has_shape_def mat_conj_def list_all_length)


lemma has_shape_mat_T: "has_shape k k m \<Longrightarrow> has_shape k k (mat_T m)"
  using has_shape_square_ncols[of k m] by (simp add: mat_T_def has_shape_def list_all_length)

lemma mat_T_nth: "has_shape k k m \<Longrightarrow> i < k \<Longrightarrow> j < k \<Longrightarrow> mat_T m ! i ! j = m ! j ! i"
  using has_shape_square_ncols[of k m] by (simp add: mat_T_def has_shape_def)

lemma mat_conj_nth: "has_shape r c m \<Longrightarrow> i < r \<Longrightarrow> j < c \<Longrightarrow> mat_conj m ! i ! j = cnj (m ! i ! j)"
  by (simp add: mat_conj_def has_shape_def list_all_length)

lemma mat_scale_nth: "has_shape r c m \<Longrightarrow> i < r \<Longrightarrow> j < c \<Longrightarrow> mat_scale x m ! i ! j = x * (m ! i ! j)"
  by (simp add: mat_scale_def has_shape_def list_all_length)

lemma mat_ext:
  assumes "has_shape r c a" "has_shape r c b"
    and "\<And>i j. i < r \<Longrightarrow> j < c \<Longrightarrow> a ! i ! j = b ! i ! j"
  shows "a = b"
proof (rule nth_equalityI)
  show "length a = length b" using assms by (simp add: has_shape_def)
next
  fix i assume "i < length a"
  then have i: "i < r" using assms(1) by (simp add: has_shape_def)
  show "a ! i = b ! i"
    by (rule nth_equalityI) (use assms i in \<open>auto simp: has_shape_row\<close>)
qed

lemma mat_add_shape:
  "has_shape r c a \<Longrightarrow> has_shape r c b \<Longrightarrow> mat_add a b = Inr (mat_plus a b)"
  by (simp add: mat_add_def has_shape_map_length)

lemma has_shape_mat_plus:
  "has_shape r c a \<Longrightarrow> has_shape r c b \<Longrightarrow> has_shape r c (mat_plus a b)"
  by (simp add: mat_plus_def has_shape_def list_all_length)

lemma mat_plus_nth:
  "has_shape r c a \<Longrightarrow> has_shape r c b \<Longrightarrow> i < r \<Longrightarrow> j < c
    \<Longrightarrow> mat_plus a b ! i ! j = a ! i ! j + b ! i ! j"
  by (simp add: mat_plus_def has_shape_def list_all_length)


section \<open>Machine integers\<close>

lemma wrap64_id: "in_int64 x \<Longrightarrow> wrap64 x = x"
  by (simp add: wrap64_def in_int64_def)

lemma wrap64_range: "in_int64 (wrap64 x)"
  by (simp add: wrap64_def in_int64_def)

lemma neg_int_zero: "neg_int kind 0 = 0"
  by (cases kind) (simp_all add: neg_int_def wrap64_def)

lemma neg_int_negative:
  "a < 0 \<Longrightarrow> kind = PyInt \<or> (in_int64 a \<and> a \<noteq> - (2 ^ 63)) \<Longrightarrow> 0 < neg_int kind a"
  by (cases kind) (auto simp: neg_int_def wrap64_id in_int64_def)

section \<open>The canonical-storage rule\<close>

lemma canonical_key_neg:
  assumes "G \<noteq> (0, 0, 0)" "\<not> first_nonzero_positive G" "negation_safe kind G"
  shows "canonical_key (neg_G kind G)"
proof -
  obtain a b c where G: "G = (a, b, c)" by (cases G)
  have s: "kind = PyInt \<or> (in_int64 a \<and> in_int64 b \<and> in_int64 c \<and> first_nonzero (a, b, c) \<noteq> - (2 ^ 63))"
    using assms(3) by (auto simp: negation_safe_def G)
  show ?thesis
  proof (cases "a \<noteq> 0")
    case True
    then have "a < 0" using assms(2) by (simp add: G)
    then have "0 < neg_int kind a" using s True by (intro neg_int_negative) auto
    then show ?thesis by (simp add: canonical_key_def G)
  next
    case a0: False
    show ?thesis
    proof (cases "b \<noteq> 0")
      case True
      then have "b < 0" using assms(2) a0 by (simp add: G)
      then have "0 < neg_int kind b" using s True a0 by (intro neg_int_negative) auto
      then show ?thesis using a0 by (simp add: canonical_key_def G neg_int_zero)
    next
      case b0: False
      then have c: "c \<noteq> 0" "c < 0" using assms(1,2) a0 by (auto simp: G)
      then have "0 < neg_int kind c" using s a0 b0 by (intro neg_int_negative) auto
      then show ?thesis using a0 b0 by (simp add: canonical_key_def G neg_int_zero)
    qed
  qed
qed

lemma canonical_key_not_both: "canonical_key G \<Longrightarrow> canonical_key (minus_G G) \<Longrightarrow> G = (0, 0, 0)"
  by (cases G) (auto simp: canonical_key_def split: if_splits)

lemma canonical_keys_update:
  "canonical_keys h \<Longrightarrow> canonical_key G \<Longrightarrow> canonical_keys (AList.update G m h)"
  by (auto simp: canonical_keys_def distinct_update list_all_iff update_keys split: if_splits)

lemma canonical_keys_Nil: "canonical_keys []"
  by (simp add: canonical_keys_def)

lemma reduce_step_canonical: "canonical_keys res \<Longrightarrow> canonical_keys (reduce_step Gh res)"
  by (cases Gh) (auto simp: reduce_step_def canonical_key_def intro!: canonical_keys_update)

lemma fold_reduce_step_canonical:
  "canonical_keys res \<Longrightarrow> canonical_keys (fold reduce_step hop res)"
  by (induction hop arbitrary: res) (auto simp: reduce_step_canonical)

lemma reduce_hoppings_canonical:
  "reduce_hoppings kind nd hop tol = Inr h \<Longrightarrow> canonical_keys h"
  by (auto simp: reduce_hoppings_def bindE_Inr_iff fold_reduce_step_canonical canonical_keys_Nil)

lemma positive_G_step_canonical:
  assumes "canonical_keys nh" "positive_G_step kind n (G, m) nh = Inr nh'" "negation_safe kind G"
  shows "canonical_keys nh'"
proof -
  have "canonical_key (neg_G kind G)" if "G \<noteq> (0, 0, 0)" "\<not> first_nonzero_positive G"
    using that assms(3) by (rule canonical_key_neg)
  then show ?thesis
    using assms(1,2)
    by (auto simp: positive_G_step_def bindE_Inr_iff canonical_key_def Let_def
          intro!: canonical_keys_update split: if_splits)
qed

lemma map_hoppings_positive_G_canonical:
  assumes "map_hoppings_positive_G kind n hop = Inr h"
    and "\<forall>G \<in> fst ` set hop. negation_safe kind G"
  shows "canonical_keys h"
  using assms(1) unfolding map_hoppings_positive_G_def
proof (rule foldE_invariant[where P = canonical_keys])
  show "canonical_keys []" by (rule canonical_keys_Nil)
next
  fix x t t' assume x: "x \<in> set hop" and t: "canonical_keys t"
    and s: "positive_G_step kind n x t = Inr t'"
  obtain G m where e: "x = (G, m)" by (cases x)
  have "negation_safe kind G" using assms(2) x e by force
  with t s show "canonical_keys t'" unfolding e by (rule positive_G_step_canonical)
qed

text \<open>The table that reaches \<^verbatim>\<open>_reduce_hoppings\<close> or \<^verbatim>\<open>_map_hoppings_positive_G\<close>, and
  what the constructor makes of it.\<close>

lemma Model_init_unfold:
  assumes "init_positions kind (init_size (to_dict h) s) p (to_dict h) = Inr (ps, kind1, hop1)"
    and "to_dict h \<noteq> [] \<or> s \<noteq> None"
  shows "Model_init kind nd h s oc p u cc tol =
           bindE (if cc then reduce_hoppings kind1 nd hop1 tol
                  else map_hoppings_positive_G kind1 (init_size (to_dict h) s) hop1)
             (\<lambda>hop2. if list_all (has_shape (init_size (to_dict h) s) (init_size (to_dict h) s))
                            (map snd hop2)
                      then Inr \<lparr> size_of = init_size (to_dict h) s, occ = oc, pos = ps, uc = u,
                                 hoppings = hop2, key_kind = kind1 \<rparr>
                      else Inl ShapeMismatch)"
  using assms by (auto simp: Model_init_def Let_def)

lemma Model_init_Inr:
  assumes "Model_init kind nd h s oc p u cc tol = Inr m"
  shows "\<exists>ps kind1 hop1 hop2.
           init_positions kind (init_size (to_dict h) s) p (to_dict h) = Inr (ps, kind1, hop1)
         \<and> (to_dict h \<noteq> [] \<or> s \<noteq> None)
         \<and> (if cc then reduce_hoppings kind1 nd hop1 tol
             else map_hoppings_positive_G kind1 (init_size (to_dict h) s) hop1) = Inr hop2
         \<and> list_all (has_shape (init_size (to_dict h) s) (init_size (to_dict h) s)) (map snd hop2)
         \<and> m = \<lparr> size_of = init_size (to_dict h) s, occ = oc, pos = ps, uc = u,
                 hoppings = hop2, key_kind = kind1 \<rparr>"
  using assms
  by (auto simp: Model_init_def Let_def bindE_Inr_iff split: if_splits)

lemma Model_init_canonical:
  assumes "Model_init kind nd h s oc p u cc tol = Inr m"
    and "init_positions kind (init_size (to_dict h) s) p (to_dict h) = Inr (ps, kind1, hop1)"
    and "cc \<or> (\<forall>G \<in> fst ` set hop1. negation_safe kind1 G)"
  shows "canonical_keys (hoppings m)"
proof -
  from Model_init_Inr[OF assms(1)] assms(2) obtain hop2 where
    r: "(if cc then reduce_hoppings kind1 nd hop1 tol
         else map_hoppings_positive_G kind1 (init_size (to_dict h) s) hop1) = Inr hop2"
    and m: "hoppings m = hop2" by auto
  show ?thesis
  proof (cases cc)
    case True
    then show ?thesis using r m reduce_hoppings_canonical by auto
  next
    case False
    then show ?thesis using r m assms(3) map_hoppings_positive_G_canonical by auto
  qed
qed

lemmas init_eval =
  Model_init_def init_size_def to_dict_def init_positions_def reduce_hoppings_def cc_check_def
  frobenius_cc_def mat_conj_def mat_T_def ncols_def mat_norm_def default_cc_tolerance_def
  reduce_step_def mat_scale_def has_shape_def map_hoppings_positive_G_def
  positive_G_step_def mat_add_def dd_get_def zeros_def mat_plus_def mat_minus_def
  neg_int_def

lemma chain_model_constructed:
  "Model_init PyInt frobenius_cc chain_full None None None None True default_cc_tolerance
     = Inr chain_model"
  by (simp add: chain_full_def chain_model_def init_eval)

text \<open>Every derived-model method ends in a call of the constructor with
  \<^verbatim>\<open>contains_cc=False\<close>.\<close>

lemma derived_is_init:
  assumes "fst (add model self) = Inr m \<or> fst (mul x self) = Inr m \<or> fst (neg self) = Inr m
     \<or> fst (sub model self) = Inr m \<or> fst (div_model x self) = Inr m
     \<or> fst (supercell dims periodic pas self) = Inr m \<or> fst (trs self) = Inr m
     \<or> fst (change_uc ld ls M self) = Inr m \<or> fst (em_field sp vp ps pv ms mv self) = Inr m"
  shows "\<exists>kind h s oc p u. Model_init kind frobenius_cc h s oc p u False default_cc_tolerance = Inr m"
  using assms
  apply (elim disjE)
  subgoal by (auto simp: add_def add_outcome_def bindE_Inr_iff split: if_splits) blast
  subgoal by (auto simp: mul_def mul_outcome_def) blast
  subgoal by (auto simp: neg_def mul_def mul_outcome_def) blast
  subgoal by (auto simp: sub_def add_outcome_def bindE_Inr_iff split: if_splits) blast
  subgoal by (auto simp: div_model_def mul_def mul_outcome_def split: if_splits) blast
  subgoal by (auto simp: supercell_def supercell_outcome_def Let_def bindE_Inr_iff split: if_splits) blast
  subgoal by (auto simp: trs_def trs_outcome_def Let_def bindE_Inr_iff) blast
  subgoal by (auto simp: change_uc_def change_uc_outcome_def Let_def bindE_Inr_iff split: if_splits) blast
  subgoal by (auto simp: em_field_def split: sum.splits option.splits prod.splits) blast+
  done

lemma frac_neg_numeral: "frac (- numeral k :: real) = 0"
  by (metis frac_of_int of_int_minus of_int_numeral)

lemma far_apart_constructed:
  "Model_init PyInt frobenius_cc far_apart_hoppings None None (Some far_apart_pos) None False
     default_cc_tolerance
   = Inr \<lparr> size_of = 2, occ = None, pos = [(0, 0, 0), (0, 0, 0)], uc = None,
           hoppings = [((- (2 ^ 63), 0, 0), [[0, 0], [1, 0]])], key_kind = NpInt64 \<rparr>"
  by (simp add: far_apart_hoppings_def far_apart_pos_def init_eval map_to_uc_def
        map_to_uc_matrix_def map_to_uc_entry_def mat_acc_def cast_int64_def trunc_def
        in_int64_def wrap64_def plus64_def float_mod1_def Let_def frac_neg_numeral)

text \<open>
  Claim C8, as it stands, at a counterexample. Two orbitals given \<open>2\<^sup>6\<^sup>3\<close> cells apart are
  mapped into the home cell, and the hopping between them is re-keyed to the \<^verbatim>\<open>int64\<close>
  key \<open>(-2\<^sup>6\<^sup>3, 0, 0)\<close>. With \<^verbatim>\<open>contains_cc=False\<close> the constructor stores it under its
  negation, which wraps around to \<open>(-2\<^sup>6\<^sup>3, 0, 0)\<close>: the stored key is not the origin and
  its first non-zero coordinate is negative.
\<close>

theorem canonical_storage_wraps_counterexample:
  "Model_init PyInt frobenius_cc far_apart_hoppings None None (Some far_apart_pos) None False
     default_cc_tolerance
   = Inr \<lparr> size_of = 2, occ = None, pos = [(0, 0, 0), (0, 0, 0)], uc = None,
           hoppings = [((- (2 ^ 63), 0, 0), [[0, 0], [1, 0]])], key_kind = NpInt64 \<rparr>
   \<and> \<not> first_nonzero_positive (- (2 ^ 63), 0, 0)
   \<and> (- (2 ^ 63), 0, 0) \<noteq> (0 :: int, 0 :: int, 0 :: int)"
  using far_apart_constructed by simp

text \<open>
  Claim C8, amended. Let \<open>hop1\<close> be the table that reaches \<^verbatim>\<open>_reduce_hoppings\<close> or
  \<^verbatim>\<open>_map_hoppings_positive_G\<close> in a constructor call (the given dict, or its re-keyed
  image when a position lies outside the home cell), the calls that end the derived-model
  methods included. If \<^verbatim>\<open>contains_cc\<close> is true, or the keys of \<open>hop1\<close> are tuples of Python
  ints, or they are \<^verbatim>\<open>int64\<close> tuples none of which has \<open>-2\<^sup>6\<^sup>3\<close> as its first non-zero
  coordinate, then the model returned stores its hoppings canonically: every stored key
  other than \<open>(0, 0, 0)\<close> has a positive first non-zero coordinate, no two different
  stored keys are negations of each other, and no key is stored twice.
\<close>

theorem canonical_storage_invariant:
  assumes "Model_init kind nd h s oc p u cc tol = Inr m"
    and "init_positions kind (init_size (to_dict h) s) p (to_dict h) = Inr (ps, kind1, hop1)"
    and "cc \<or> (\<forall>G \<in> fst ` set hop1. negation_safe kind1 G)"
  shows "(\<forall>G \<in> fst ` set (hoppings m). G \<noteq> (0, 0, 0) \<longrightarrow> first_nonzero_positive G)
    \<and> (\<forall>G \<in> fst ` set (hoppings m). \<forall>G' \<in> fst ` set (hoppings m).
          G' \<noteq> G \<longrightarrow> G' \<noteq> minus_G G)
    \<and> distinct (map fst (hoppings m))"
proof -
  have c: "canonical_keys (hoppings m)"
    using assms by (rule Model_init_canonical)
  then have k: "\<And>G. G \<in> fst ` set (hoppings m) \<Longrightarrow> canonical_key G"
    by (auto simp: canonical_keys_def list_all_iff)
  have 1: "\<forall>G \<in> fst ` set (hoppings m). G \<noteq> (0, 0, 0) \<longrightarrow> first_nonzero_positive G"
    using k unfolding canonical_key_def by blast
  have 2: "\<forall>G \<in> fst ` set (hoppings m). \<forall>G' \<in> fst ` set (hoppings m).
             G' \<noteq> G \<longrightarrow> G' \<noteq> minus_G G"
  proof (intro ballI impI notI)
    fix G G' assume G: "G \<in> fst ` set (hoppings m)" and G': "G' \<in> fst ` set (hoppings m)"
      and ne: "G' \<noteq> G" and eq: "G' = minus_G G"
    have "G = (0, 0, 0)" using canonical_key_not_both[of G] k[OF G] k[OF G'] eq by simp
    with eq ne show False by simp
  qed
  from 1 2 c show ?thesis by (simp add: canonical_keys_def)
qed

theorem canonical_storage_invariant_witness:
  "Model_init NpInt64 frobenius_cc back_hop None None None None False default_cc_tolerance
     = Inr (hop_model\<lparr>key_kind := NpInt64\<rparr>)
   \<and> init_positions NpInt64 (init_size (to_dict back_hop) None) None (to_dict back_hop)
       = Inr ([(0, 0, 0)], NpInt64, back_hop)
   \<and> negation_safe NpInt64 (- 1, 0, 0)
   \<and> map fst (hoppings (hop_model\<lparr>key_kind := NpInt64\<rparr>)) = [(1, 0, 0)]
   \<and> first_nonzero_positive (1, 0, 0)"
proof -
  have 1: "Model_init NpInt64 frobenius_cc back_hop None None None None False default_cc_tolerance
     = Inr (hop_model\<lparr>key_kind := NpInt64\<rparr>)"
    by (simp add: back_hop_def hop_model_def init_eval wrap64_def)
  have 2: "init_positions NpInt64 (init_size (to_dict back_hop) None) None (to_dict back_hop)
       = Inr ([(0, 0, 0)], NpInt64, back_hop)"
    by (simp add: back_hop_def init_eval)
  have 3: "negation_safe NpInt64 (- 1, 0, 0)"
    by (simp add: negation_safe_def in_int64_def)
  have 4: "False \<or> (\<forall>G \<in> fst ` set back_hop. negation_safe NpInt64 G)"
    using 3 by (simp add: back_hop_def)
  have 5: "map fst (hoppings (hop_model\<lparr>key_kind := NpInt64\<rparr>)) = [(1, 0, 0)]"
    by (simp add: hop_model_def)
  from canonical_storage_invariant[OF 1 2 4] 5
  have "first_nonzero_positive (1, 0, 0)" by simp
  with 1 2 3 5 show ?thesis by simp
qed

section \<open>The source model after a call\<close>

lemma pure_methods_source:
  "snd (add model self) = self" "snd (mul x self) = self" "snd (neg self) = self"
  "snd (sub model self) = self" "snd (div_model x self) = self"
  "snd (supercell dims periodic pas self) = self" "snd (change_uc ld ls M self) = self"
  "snd (trs self) = self" "snd (hamilton k self) = self"
  by (simp_all add: add_def mul_def neg_def sub_def div_model_def supercell_def change_uc_def
        trs_def hamilton_def)

lemma ext_sub3_self_finite:
  "ext_sub3 (finite_pot A r) (finite_pot A r) = (Some 0, Some 0, Some 0)"
  by (cases "A r") (simp add: finite_pot_def)

lemma ext_dot3_zero: "ext_dot3 v (Some 0, Some 0, Some 0) = Some 0"
  by (cases v) simp

text \<open>Both potentials of a round are read at the position of \<open>i0\<close>: when they are finite,
  their difference is zero and the factor written into the source is \<open>exp 0\<close>.\<close>

lemma peierls_factor_finite:
  "peierls_factor (finite_pot A) pv mode U ps G i01 = Inr z \<Longrightarrow> z = Num 1"
  by (cases i01)
     (auto simp: peierls_factor_def Let_def ext_sub3_self_finite ext_dot3_zero split: if_splits)

lemma map_update_same: "(map f xs)[i := f (xs ! i)] = map f xs"
  by (metis list_update_id map_update)

lemma as_written_update_same:
  "(as_written m)[i0 := (as_written m ! i0)[i1 := cnum_times (as_written m ! i0 ! i1) (Num 1)]]
    = as_written m"
proof (cases "i0 < length m")
  case False
  then show ?thesis by (simp add: as_written_def list_update_beyond)
next
  case i0: True
  show ?thesis
  proof (cases "i1 < length (m ! i0)")
    case False
    then show ?thesis using i0
      by (simp add: as_written_def list_update_beyond map_update_same)
  next
    case True
    then show ?thesis using i0 by (simp add: as_written_def map_update_same)
  qed
qed

lemma vec_matrix_loop_unchanged:
  assumes "\<And>i z. f i = Inr z \<Longrightarrow> z = Num 1"
  shows "snd (vec_matrix_loop f idxs (as_written m)) = as_written m"
proof (induction idxs)
  case Nil
  then show ?case by simp
next
  case (Cons i idxs)
  obtain i0 i1 where i: "i = (i0, i1)" by (cases i)
  show ?case
  proof (cases "f (i0, i1)")
    case (Inl e)
    then show ?thesis by (simp add: i)
  next
    case (Inr z)
    then have "z = Num 1" using assms by blast
    with Inr Cons.IH show ?thesis by (simp add: i as_written_update_same)
  qed
qed

lemma vec_table_loop_unchanged:
  assumes "\<And>G i z. f G i = Inr z \<Longrightarrow> z = Num 1"
  shows "snd (vec_table_loop f h) = table_as_written h"
proof (induction h)
  case Nil
  then show ?case by (simp add: table_as_written_def)
next
  case (Cons Gh h)
  obtain G m where Gh: "Gh = (G, m)" by (cases Gh)
  have m: "snd (vec_matrix_loop (f G) (nonzero_idx m) (as_written m)) = as_written m"
    by (rule vec_matrix_loop_unchanged) (use assms in blast)
  show ?case using Cons.IH m
    by (auto simp: Gh table_as_written_def split: prod.splits option.splits)
qed

text \<open>Without a vector potential, and with one that returns finite floats, \<^verbatim>\<open>em_field\<close>
  leaves the hopping table of the source as it was.\<close>

lemma em_field_source_finite:
  "snd (em_field sp None ps pv ms mv self) = table_as_written (hoppings self)"
  "snd (em_field sp (Some (finite_pot A)) ps pv ms mv self) = table_as_written (hoppings self)"
proof -
  show "snd (em_field sp None ps pv ms mv self) = table_as_written (hoppings self)"
    by (auto simp: em_field_def split: sum.splits)
  have *: "\<And>U e h.
      vec_table_loop (peierls_factor (finite_pot A) pv mv U (pos self)) (hoppings self) = (e, h)
       \<Longrightarrow> h = table_as_written (hoppings self)"
    using vec_table_loop_unchanged[of "\<lambda>G. peierls_factor (finite_pot A) pv mv _ (pos self) G"
        "hoppings self"] peierls_factor_finite by (metis snd_conv)
  show "snd (em_field sp (Some (finite_pot A)) ps pv ms mv self) = table_as_written (hoppings self)"
    by (auto simp: em_field_def dest!: * split: sum.splits option.splits prod.splits)
qed

lemma two_site_constructed:
  "Model_init PyInt frobenius_cc two_site_hoppings None None (Some [(0, 0, 0), (1 / 2, 0, 0)])
     (Some unit_uc) False default_cc_tolerance = Inr two_site"
  by (simp add: two_site_def two_site_hoppings_def init_eval map_to_uc_def cast_int64_def
        trunc_def in_int64_def)

text \<open>
  Claim C1, at a failing input. On the model \<open>two_site\<close>, \<^verbatim>\<open>em_field\<close> is called with a
  vector potential whose \<open>x\<close> component is infinite. Both potentials of a round are read at
  the same position, their difference is \<open>inf - inf\<close>, and the factor is NaN. The loop
  multiplies the matrices of \<^verbatim>\<open>self.hoppings\<close>, not of the deep copy: the model returned
  is built from the copy and equals the source as it was, and the source is left with NaN
  in the place of its amplitude \<open>1\<close>.
\<close>

theorem em_field_overwrites_source:
  "Model_init PyInt frobenius_cc two_site_hoppings None None (Some [(0, 0, 0), (1 / 2, 0, 0)])
     (Some unit_uc) False default_cc_tolerance = Inr two_site
   \<and> table_as_written (hoppings two_site) = [((1, 0, 0), [[Num 0, Num 1], [Num 0, Num 0]])]
   \<and> fst (em_field None (Some infinite_A) 1 1 ''relative'' ''relative'' two_site) = Inr two_site
   \<and> snd (em_field None (Some infinite_A) 1 1 ''relative'' ''relative'' two_site)
       = [((1, 0, 0), [[Num 0, NaN], [Num 0, Num 0]])]"
proof -
  have "em_field None (Some infinite_A) 1 1 ''relative'' ''relative'' two_site
          = (Inr two_site, [((1, 0, 0), [[Num 0, NaN], [Num 0, Num 0]])])"
    using two_site_constructed
    by (simp add: em_field_def two_site_def two_site_hoppings_def peierls_factor_def
          nonzero_idx_def unit_uc_def Let_def infinite_A_def as_written_def)
  then show ?thesis
    using two_site_constructed
    by (simp add: two_site_def two_site_hoppings_def table_as_written_def as_written_def)
qed

section \<open>The vector potential of \<^verbatim>\<open>em_field\<close>\<close>

text \<open>
  Claim C2, at a failing input. The model \<open>two_site\<close> has a unit cell and one stored
  amplitude \<open>1\<close> at \<open>(G, i0, i1) = ((1, 0, 0), 0, 1)\<close>, between orbitals at \<open>r0 = 0\<close> and
  \<open>r1 = (1/2, 0, 0)\<close>. With \<open>A(r) = (4x/3, 0, 0)\<close> and prefactor \<open>\<pi>\<close> the promised factor
  is \<open>exp(-i\<pi>) = -1\<close>; the model \<open>em_field\<close> returns is the source itself, amplitude \<open>1\<close>.
\<close>

theorem em_field_vec_pot_without_effect:
  "Model_init PyInt frobenius_cc two_site_hoppings None None (Some [(0, 0, 0), (1 / 2, 0, 0)])
     (Some unit_uc) False default_cc_tolerance = Inr two_site
   \<and> fst (em_field None (Some (finite_pot linear_A)) 1 pi ''relative'' ''relative'' two_site)
       = Inr two_site
   \<and> hoppings two_site = [((1, 0, 0), [[0, 1], [0, 0]])]
   \<and> peierls_phase_spec linear_A pi (0, 0, 0) (1 / 2, 0, 0) (1, 0, 0) = - 1"
proof -
  have "fst (em_field None (Some (finite_pot linear_A)) 1 pi ''relative'' ''relative'' two_site)
          = Inr two_site"
    using two_site_constructed
    by (simp add: em_field_def two_site_def two_site_hoppings_def peierls_factor_def
          nonzero_idx_def unit_uc_def Let_def linear_A_def finite_pot_def as_written_def)
  moreover have "peierls_phase_spec linear_A pi (0, 0, 0) (1 / 2, 0, 0) (1, 0, 0) = - 1"
    by (simp add: peierls_phase_spec_def linear_A_def exp_minus)
  ultimately show ?thesis
    using two_site_constructed by (simp add: two_site_def two_site_hoppings_def)
qed

section \<open>\<^verbatim>\<open>hamilton\<close> and \<^verbatim>\<open>__add__\<close> on small models\<close>

lemma empty_model_constructed:
  "Model_init PyInt frobenius_cc [] (Some 1) None None None True default_cc_tolerance
     = Inr empty_model"
  by (simp add: empty_model_def init_eval)

lemma empty_model2_constructed:
  "Model_init PyInt frobenius_cc [] (Some 2) None None None True default_cc_tolerance
     = Inr empty_model2"
  by (simp add: empty_model2_def init_eval numeral_2_eq_2)

lemma onsite_model_constructed:
  "Model_init PyInt frobenius_cc [((0, 0, 0), [[1]])] None None None None False
     default_cc_tolerance = Inr onsite_model"
  by (simp add: onsite_model_def init_eval)

lemma hop_model_constructed:
  "Model_init PyInt frobenius_cc [((1, 0, 0), [[1]])] None None None None False
     default_cc_tolerance = Inr hop_model"
  by (simp add: hop_model_def init_eval)

text \<open>
  Claim C4, at a failing input. The constructor accepts an empty hopping dict when the
  size is given; on that model \<^verbatim>\<open>sum\<close> returns the integer \<open>0\<close> and
  \<^verbatim>\<open>H.conjugate().T\<close> raises AttributeError, where the claim has the zero matrix.
\<close>

theorem hamilton_empty_table_raises:
  "Model_init PyInt frobenius_cc [] (Some 1) None None None True default_cc_tolerance
     = Inr empty_model
   \<and> fst (hamilton k empty_model) = Inl AttributeError"
  using empty_model_constructed by (simp add: hamilton_def empty_model_def)

text \<open>
  Claim C6, at failing inputs. Adding a model that stores a key the left operand does
  not store raises KeyError, in either order of the operands, where the claim has the
  union of the two tables; and operands of different sizes raise TypeError, where the
  claim has the error that reports both sizes.
\<close>

theorem add_missing_key_raises:
  "Model_init PyInt frobenius_cc [((0, 0, 0), [[1]])] None None None None False
     default_cc_tolerance = Inr onsite_model
   \<and> Model_init PyInt frobenius_cc [((1, 0, 0), [[1]])] None None None None False
       default_cc_tolerance = Inr hop_model
   \<and> fst (add hop_model onsite_model) = Inl (KeyError (1, 0, 0))
   \<and> fst (add onsite_model hop_model) = Inl (KeyError (0, 0, 0))
   \<and> Model_init PyInt frobenius_cc [] (Some 2) None None None True default_cc_tolerance
       = Inr empty_model2
   \<and> fst (add empty_model2 onsite_model) = Inl TypeError"
  using onsite_model_constructed hop_model_constructed empty_model2_constructed
  by (simp add: add_def add_outcome_def onsite_model_def hop_model_def empty_model2_def
        uc_match_def rows_match_def add_step_def add_tolerance_def)

section \<open>The consistency loop of \<^verbatim>\<open>_reduce_hoppings\<close>\<close>

lemma foldE_unit_first_error:
  assumes "\<And>x. x \<in> set pre \<Longrightarrow> f x () = Inr ()" and "f y () = Inl e"
  shows "foldE f (pre @ y # post) () = Inl e"
  using assms by (induction pre) auto


lemma foldE_unit_some_error:
  assumes "\<And>x. x \<in> set xs \<Longrightarrow> f x () = Inr () \<or> f x () = Inl e"
    and "\<exists>x \<in> set xs. f x () = Inl e"
  shows "foldE f xs () = Inl e"
  using assms
proof (induction xs)
  case Nil
  then show ?case by simp
next
  case (Cons x xs)
  show ?case
  proof (cases "f x ()")
    case (Inl e')
    then show ?thesis using Cons.prems(1)[of x] by auto
  next
    case (Inr u)
    then have "\<exists>x \<in> set xs. f x () = Inl e" using Cons.prems(2) by auto
    with Cons.IH Cons.prems(1) Inr show ?thesis by auto
  qed
qed

lemma foldE_unit_missing:
  assumes "f y () = Inl e" "y \<in> set xs"
  shows "\<exists>e'. foldE f xs () = Inl e'"
  using assms
proof (induction xs)
  case Nil
  then show ?case by simp
next
  case (Cons x xs)
  then show ?case by (cases "f x ()") auto
qed

lemma first_failure:
  assumes "\<not> (\<forall>x \<in> set xs. f x () = Inr ())"
  shows "\<exists>pre x post e. xs = pre @ x # post \<and> (\<forall>y \<in> set pre. f y () = Inr ())
           \<and> f x () = Inl e"
proof -
  from assms have "\<exists>x \<in> set xs. f x () \<noteq> Inr ()" by blast
  from split_list_first_prop[OF this] obtain pre x post where
    s: "xs = pre @ x # post" "f x () \<noteq> Inr ()" "\<forall>y \<in> set pre. \<not> f y () \<noteq> Inr ()" by blast
  from s(2) obtain e where "f x () = Inl e" by (cases "f x ()") auto
  with s show ?thesis by blast
qed

lemma cc_check_pass_iff:
  "cc_check kind nd hop tol Gh () = Inr () \<longleftrightarrow> pair_within kind nd hop tol Gh"
  by (cases Gh) (auto simp: cc_check_def pair_within_def dagger_def split: option.splits)

lemma cc_check_missing:
  "neg_G kind G \<notin> fst ` set hop
    \<Longrightarrow> cc_check kind nd hop tol (G, m) () = Inl (KeyError (neg_G kind G))"
proof -
  assume "neg_G kind G \<notin> fst ` set hop"
  then have "map_of hop (neg_G kind G) = None" by (simp add: map_of_eq_None_iff)
  then show ?thesis by (simp add: cc_check_def)
qed


lemma init_positions_empty:
  "init_positions kind n pos_arg [] = Inr (ps, kind1, hop1) \<Longrightarrow> hop1 = []"
  by (auto simp: init_positions_def map_to_uc_def Let_def split: option.splits if_splits)

lemma Model_init_cc:
  assumes "init_positions kind (init_size (to_dict h) s) pos_arg (to_dict h) = Inr (ps, kind1, hop1)"
    and "foldE (cc_check kind1 nd hop1 tol) hop1 () = Inl e"
  shows "Model_init kind nd h s oc pos_arg u True tol = Inl e"
proof -
  have "hop1 \<noteq> []" using assms(2) by auto
  then have ne: "to_dict h \<noteq> []" using assms(1) init_positions_empty by fastforce
  show ?thesis
    using Model_init_unfold[OF assms(1), where nd = nd and oc = oc and u = u and cc = True and tol = tol]
      ne assms(2)
    by (simp add: reduce_hoppings_def)
qed




text \<open>
  Claim C10, as it stands, at a counterexample. The dict \<open>skew_then_lone\<close> holds the key
  \<open>(1, 0, 0)\<close> without \<open>(-1, 0, 0)\<close>, but the loop meets \<open>(0, 0, 0)\<close> first, whose
  matrix is not Hermitian: the constructor raises the Hermiticity error, not KeyError.
\<close>

theorem key_error_not_first_counterexample:
  "neg_G PyInt (1, 0, 0) \<notin> fst ` set skew_then_lone
   \<and> Model_init PyInt frobenius_cc skew_then_lone None None None None True default_cc_tolerance
       = Inl NotHermitian
   \<and> Model_init PyInt frobenius_cc skew_then_lone None None None None True default_cc_tolerance
       \<noteq> Inl (KeyError (neg_G PyInt (1, 0, 0)))"
  by (simp add: skew_then_lone_def init_eval)

text \<open>
  Claim C10, amended. Let \<open>hop1\<close> be the table that reaches the consistency loop of a
  construction with \<^verbatim>\<open>contains_cc=True\<close> (the given dict, or its re-keyed image when a
  position lies outside the home cell), and let it store a key \<open>G\<close> but not the key that
  the loop looks up for it, \<^verbatim>\<open>tuple(-x for x in G)\<close> (the negation of \<open>G\<close>, which wraps
  around at \<open>-2\<^sup>6\<^sup>3\<close> when the key is an \<^verbatim>\<open>int64\<close> tuple). Then the construction raises and
  returns no model. What it raises is \<open>KeyError\<close> of the key looked up when every key that
  the loop meets before \<open>G\<close> keeps within the tolerance, and otherwise the error of the
  first key before \<open>G\<close> that does not.
\<close>

theorem missing_partner_never_constructs:
  assumes "init_positions kind (init_size (to_dict h) s) pos_arg (to_dict h) = Inr (ps, kind1, hop1)"
    and "hop1 = pre @ (G, m) # post"
    and "neg_G kind1 G \<notin> fst ` set hop1"
  shows "\<exists>e. Model_init kind nd h s oc pos_arg u True tol = Inl e
    \<and> ((\<forall>x \<in> set pre. pair_within kind1 nd hop1 tol x) \<longrightarrow> e = KeyError (neg_G kind1 G))
    \<and> (\<not> (\<forall>x \<in> set pre. pair_within kind1 nd hop1 tol x) \<longrightarrow>
          (\<exists>pre1 x post1. pre = pre1 @ x # post1
             \<and> (\<forall>y \<in> set pre1. pair_within kind1 nd hop1 tol y)
             \<and> cc_check kind1 nd hop1 tol x () = Inl e))"
proof (cases "\<forall>x \<in> set pre. pair_within kind1 nd hop1 tol x")
  case True
  have c: "cc_check kind1 nd hop1 tol (G, m) () = Inl (KeyError (neg_G kind1 G))"
    using assms(3) by (rule cc_check_missing)
  have "foldE (cc_check kind1 nd hop1 tol) (pre @ (G, m) # post) ()
          = Inl (KeyError (neg_G kind1 G))"
    using True c by (intro foldE_unit_first_error) (auto simp: cc_check_pass_iff)
  then have "Model_init kind nd h s oc pos_arg u True tol = Inl (KeyError (neg_G kind1 G))"
    using assms(1,2) by (intro Model_init_cc) auto
  with True show ?thesis by simp
next
  case False
  then have "\<not> (\<forall>x \<in> set pre. cc_check kind1 nd hop1 tol x () = Inr ())"
    by (simp add: cc_check_pass_iff)
  from first_failure[where f = "cc_check kind1 nd hop1 tol" and xs = pre, OF this] obtain pre1 x post1 e where
    p: "pre = pre1 @ x # post1" "\<forall>y \<in> set pre1. cc_check kind1 nd hop1 tol y () = Inr ()"
      "cc_check kind1 nd hop1 tol x () = Inl e" by blast
  have "foldE (cc_check kind1 nd hop1 tol) (pre1 @ x # (post1 @ (G, m) # post)) () = Inl e"
    using p(2,3) by (intro foldE_unit_first_error) auto
  then have "foldE (cc_check kind1 nd hop1 tol) hop1 () = Inl e"
    by (simp add: assms(2) p(1))
  then have M: "Model_init kind nd h s oc pos_arg u True tol = Inl e"
    using assms(1) by (intro Model_init_cc) auto
  have "\<forall>y \<in> set pre1. pair_within kind1 nd hop1 tol y"
    using p(2) by (simp add: cc_check_pass_iff)
  then have "\<exists>pre1 x post1. pre = pre1 @ x # post1
             \<and> (\<forall>y \<in> set pre1. pair_within kind1 nd hop1 tol y)
             \<and> cc_check kind1 nd hop1 tol x () = Inl e"
    using p(1,3) by blast
  with M False show ?thesis by blast
qed

theorem missing_partner_never_constructs_witness:
  "init_positions PyInt (init_size (to_dict lone_then_skew) None) None (to_dict lone_then_skew)
     = Inr ([(0, 0, 0)], PyInt, lone_then_skew)
   \<and> lone_then_skew = [] @ ((1, 0, 0), [[1]]) # [((0, 0, 0), [[\<i>]])]
   \<and> neg_G PyInt (1, 0, 0) \<notin> fst ` set lone_then_skew
   \<and> Model_init PyInt frobenius_cc lone_then_skew None None None None True default_cc_tolerance
       = Inl (KeyError (- 1, 0, 0))"
proof -
  have 1: "init_positions PyInt (init_size (to_dict lone_then_skew) None) None
             (to_dict lone_then_skew) = Inr ([(0, 0, 0)], PyInt, lone_then_skew)"
    by (simp add: lone_then_skew_def init_eval)
  have 2: "lone_then_skew = [] @ ((1, 0, 0), [[1]]) # [((0, 0, 0), [[\<i>]])]"
    by (simp add: lone_then_skew_def)
  have 3: "neg_G PyInt (1, 0, 0) \<notin> fst ` set lone_then_skew"
    by (simp add: lone_then_skew_def neg_int_def)
  from missing_partner_never_constructs[OF 1 2 3, of frobenius_cc None None default_cc_tolerance]
  have "Model_init PyInt frobenius_cc lone_then_skew None None None None True default_cc_tolerance
       = Inl (KeyError (neg_G PyInt (1, 0, 0)))"
    by auto
  with 1 2 3 show ?thesis by (simp add: neg_int_def)
qed




end
